theory Spec2Isabelle
  imports Main "HOL-Library.Sublist"
begin

section \<open>Python strings\<close>

text \<open>
  A Python \<open>str\<close> is a sequence of code points. The model works on the code points
  below 256 (ASCII and Latin-1), one \<open>char\<close> each; text beyond that range is outside
  the model. The string methods the two tools call are written out for that range.
\<close>

type_synonym path = string

abbreviation SQ :: string where
  "SQ \<equiv> [CHR 0x27]"

abbreviation NL :: string where
  "NL \<equiv> [CHR 0x0A]"

text \<open>\<open>sep.join(xs)\<close>.\<close>

fun py_join :: "string \<Rightarrow> string list \<Rightarrow> string" where
  "py_join sep [] = []"
| "py_join sep [x] = x"
| "py_join sep (x # y # ys) = x @ sep @ py_join sep (y # ys)"

text \<open>\<open>str.isspace\<close> on one code point: tab to carriage return, the four separators
  0x1c to 0x1f, space, NEL and the no-break space.\<close>

definition py_isspace :: "char \<Rightarrow> bool" where
  "py_isspace c = (of_char c \<in> {9::nat, 10, 11, 12, 13, 28, 29, 30, 31, 32, 133, 160})"

text \<open>\<open>s.strip()\<close>: whitespace is removed at both ends.\<close>

definition py_strip :: "string \<Rightarrow> string" where
  "py_strip s = rev (dropWhile py_isspace (rev (dropWhile py_isspace s)))"

text \<open>\<open>s.lower()\<close>: the capital letters are A to Z and 0xC0 to 0xDE without the
  multiplication sign 0xD7; each has its small letter 32 places later, which is the
  same code point with bit 5 set.\<close>

definition is_upper :: "char \<Rightarrow> bool" where
  "is_upper c = (let n = (of_char c :: nat) in
     (65 \<le> n \<and> n \<le> 90) \<or> (192 \<le> n \<and> n \<le> 222 \<and> n \<noteq> 215))"

fun set_bit5 :: "char \<Rightarrow> char" where
  "set_bit5 (Char b0 b1 b2 b3 b4 b5 b6 b7) = Char b0 b1 b2 b3 b4 True b6 b7"

definition lower_char :: "char \<Rightarrow> char" where
  "lower_char c = (if is_upper c then set_bit5 c else c)"

definition py_lower :: "string \<Rightarrow> string" where
  "py_lower s = map lower_char s"

text \<open>\<open>s.replace(' ', '')\<close>.\<close>

definition remove_spaces :: "string \<Rightarrow> string" where
  "remove_spaces s = filter (\<lambda>c. c \<noteq> CHR '' '') s"

text \<open>\<open>repr\<close> of a \<open>str\<close> and of a list of them, which an f-string prints for the
  list that \<open>csv.DictReader\<close> stores under its rest key. The quote is the single quote
  unless the text holds one and no double quote; the quote and the backslash are
  escaped, control and unprintable code points are written \<open>\xhh\<close>.\<close>

definition hex_digit :: "nat \<Rightarrow> char" where
  "hex_digit n = ''0123456789abcdef'' ! (n mod 16)"

definition py_printable :: "char \<Rightarrow> bool" where
  "py_printable c = (let n = (of_char c :: nat) in
     (32 \<le> n \<and> n < 127) \<or> (161 \<le> n \<and> n \<noteq> 173))"

definition repr_char :: "char \<Rightarrow> char \<Rightarrow> string" where
  "repr_char quote c =
     (if c = quote \<or> c = CHR 0x5C then [CHR 0x5C, c]
      else if c = CHR 0x09 then [CHR 0x5C, CHR ''t'']
      else if c = CHR 0x0A then [CHR 0x5C, CHR ''n'']
      else if c = CHR 0x0D then [CHR 0x5C, CHR ''r'']
      else if py_printable c then [c]
      else [CHR 0x5C, CHR ''x'', hex_digit (of_char c div 16), hex_digit (of_char c)])"

definition py_repr :: "string \<Rightarrow> string" where
  "py_repr s =
     (let quote = (if CHR 0x27 \<in> set s \<and> CHR 0x22 \<notin> set s then CHR 0x22 else CHR 0x27)
      in [quote] @ concat (map (repr_char quote) s) @ [quote])"

definition py_repr_list :: "string list \<Rightarrow> string" where
  "py_repr_list xs = ''['' @ py_join '', '' (map py_repr xs) @ '']''"

section \<open>Exceptions, printed output and the file system\<close>

text \<open>
  The exceptions the code can meet, each with the text \<open>str(e)\<close> gives. The first
  four are the subclasses of \<open>OSError\<close> the file system raises by itself.
  \<open>OtherException\<close> stands for every other subclass of \<open>Exception\<close> a collaborator
  raises (a permission or decoding error, \<open>csv.Error\<close>, a pandas parser error).
\<close>

datatype py_exception =
    FileNotFoundError string
  | FileExistsError string
  | NotADirectoryError string
  | IsADirectoryError string
  | KeyError string
  | TypeError string
  | AttributeError string
  | IndexError string
  | OtherException string

fun exc_str :: "py_exception \<Rightarrow> string" where
  "exc_str (FileNotFoundError m) = m"
| "exc_str (FileExistsError m) = m"
| "exc_str (NotADirectoryError m) = m"
| "exc_str (IsADirectoryError m) = m"
| "exc_str (KeyError m) = m"
| "exc_str (TypeError m) = m"
| "exc_str (AttributeError m) = m"
| "exc_str (IndexError m) = m"
| "exc_str (OtherException m) = m"

text \<open>
  What a call does: the lines it printed, in order, and then either the exception it
  raised (\<open>Inl\<close>) or the value it returned (\<open>Inr\<close>).
\<close>

type_synonym 'a outcome = "string list \<times> (py_exception + 'a)"

text \<open>
  The file system, as far as the tools touch it. A node of the tree is named by its
  components from the root. \<open>cwd\<close> is the working directory, \<open>dirs\<close> are the
  directories that exist besides the root, the working directory and the directories
  above it, and \<open>contents\<close> are the regular files with what they hold. \<open>reads\<close> is
  what opening a path for reading hands to the tool (an exception, or what the parsing
  collaborator yields). \<open>mkdir_fault\<close> and \<open>write_fault\<close> are the refusals of the
  operating system that the tree does not explain (permissions, a full disk): the
  \<open>OSError\<close> it raises when asked to create that directory or to open that file for
  writing. Symbolic links are outside the model.
\<close>

type_synonym node = "string list"

record ('r, 'c) world =
  reads :: "path \<Rightarrow> py_exception + 'r"
  mkdir_fault :: "path \<Rightarrow> py_exception option"
  write_fault :: "path \<Rightarrow> py_exception option"
  cwd :: node
  dirs :: "node set"
  contents :: "node \<rightharpoonup> 'c"

section \<open>csv.DictReader\<close>

text \<open>
  The tool reads its input through \<open>csv.DictReader\<close> of the standard library. What
  the underlying \<open>csv.reader\<close> yields for a file is taken as given: the rows of the
  file, each a list of fields (a blank line is the empty list), and possibly a fault
  raised when reading goes past the last of them.
\<close>

type_synonym csv_source = "string list list \<times> py_exception option"

text \<open>A value of a row dictionary: a field, the \<open>None\<close> that fills a short row, or
  the list of surplus fields of a long row (stored under the key \<open>None\<close>).\<close>

datatype cell = Str string | NoneVal | Rest "string list"

type_synonym row_dict = "(string option \<times> cell) list"

text \<open>\<open>d[k] = v\<close> on an insertion-ordered dictionary: a key that is present keeps
  its place and takes the new value, a new key goes to the end.\<close>

fun dict_set :: "'k \<Rightarrow> 'v \<Rightarrow> ('k \<times> 'v) list \<Rightarrow> ('k \<times> 'v) list" where
  "dict_set k v [] = [(k, v)]"
| "dict_set k v ((k', v') # d) =
     (if k' = k then (k, v) # d else (k', v') # dict_set k v d)"

text \<open>\<open>DictReader.fieldnames\<close>: the first row of the reader, \<open>None\<close> for a file
  without any row.\<close>

definition fieldnames :: "csv_source \<Rightarrow> py_exception + string list option" where
  "fieldnames src =
     (case fst src of
        [] \<Rightarrow> (case snd src of Some e \<Rightarrow> Inl e | None \<Rightarrow> Inr None)
      | header # _ \<Rightarrow> Inr (Some header))"

text \<open>One step of \<open>DictReader.__next__\<close> on a row that is not blank:
  \<open>dict(zip(fieldnames, row))\<close>, then the surplus fields under the rest key, or
  \<open>None\<close> for every field name the row is too short for.\<close>

definition dict_row :: "string list \<Rightarrow> string list \<Rightarrow> row_dict" where
  "dict_row fns row =
     (let d = fold (\<lambda>(k, v). dict_set (Some k) (Str v)) (zip fns row) [];
          lf = length fns;
          lr = length row
      in if lf < lr then dict_set None (Rest (drop lf row)) d
         else if lf > lr then fold (\<lambda>k. dict_set (Some k) NoneVal) (drop lr fns) d
         else d)"

text \<open>The rows \<open>for row in reader\<close> runs over: blank rows are skipped.\<close>

definition dict_rows :: "string list list \<Rightarrow> row_dict list" where
  "dict_rows rows =
     (case rows of
        [] \<Rightarrow> []
      | header # rest \<Rightarrow> map (dict_row header) (filter (\<lambda>row. row \<noteq> []) rest))"

text \<open>How an f-string prints a key or a value of a row.\<close>

fun format_key :: "string option \<Rightarrow> string" where
  "format_key None = ''None''"
| "format_key (Some k) = k"

fun format_cell :: "cell \<Rightarrow> string" where
  "format_cell (Str s) = s"
| "format_cell NoneVal = ''None''"
| "format_cell (Rest xs) = py_repr_list xs"

section \<open>csv\_to\_mysql.py\<close>

subsection \<open>csv\_column\_to\_mysql\_tuple\<close>

text \<open>Truth value of \<open>actual_column\<close>: \<open>None\<close> and the empty string are false.\<close>

fun py_truthy :: "string option \<Rightarrow> bool" where
  "py_truthy None = False"
| "py_truthy (Some s) = (s \<noteq> [])"

text \<open>Lines 42 to 55: the two passes over the field names, with what they print. Each
  loop stops at the first field name that matches.\<close>

definition resolve_column :: "string list \<Rightarrow> string \<Rightarrow> string list \<times> string option" where
  "resolve_column fns column_name =
     (let actual_column = List.find (\<lambda>col. py_lower col = py_lower column_name) fns
      in if \<not> py_truthy actual_column then
           (case List.find (\<lambda>col. remove_spaces (py_lower col) =
                                   remove_spaces (py_lower column_name)) fns of
              None \<Rightarrow>
                ([''Warning: Column '' @ SQ @ column_name @ SQ @
                    '' not found exactly, trying to find a match...''],
                 actual_column)
            | Some col \<Rightarrow>
                ([''Warning: Column '' @ SQ @ column_name @ SQ @
                    '' not found exactly, trying to find a match...'',
                  ''Found matching column: '' @ SQ @ col @ SQ],
                 Some col))
         else ([], actual_column))"

text \<open>Lines 62 to 66: the loop over the rows. \<open>row[actual_column]\<close> raises
  \<open>KeyError\<close> for a missing key, and \<open>.strip()\<close> raises \<open>AttributeError\<close> on a
  value that is not a string.\<close>

fun extract_values :: "string \<Rightarrow> row_dict list \<Rightarrow> string list \<Rightarrow> py_exception + string list" where
  "extract_values actual_column [] values = Inr values"
| "extract_values actual_column (row # rows) values =
     (case map_of row (Some actual_column) of
        None \<Rightarrow> Inl (KeyError (py_repr actual_column))
      | Some (Str s) \<Rightarrow>
          (let value = py_strip s
           in extract_values actual_column rows
                (if value \<noteq> [] then values @ [value] else values))
      | Some NoneVal \<Rightarrow>
          Inl (AttributeError
                 (SQ @ ''NoneType'' @ SQ @ '' object has no attribute '' @ SQ @ ''strip'' @ SQ))
      | Some (Rest xs) \<Rightarrow>
          Inl (AttributeError
                 (SQ @ ''list'' @ SQ @ '' object has no attribute '' @ SQ @ ''strip'' @ SQ)))"

text \<open>Lines 72 to 77.\<close>

definition format_values :: "bool \<Rightarrow> string list \<Rightarrow> string" where
  "format_values add_quotes values =
     (if add_quotes then ''('' @ py_join '', '' (map (\<lambda>value. SQ @ value @ SQ) values) @ '')''
      else ''('' @ py_join '', '' values @ '')'')"

text \<open>The body of the \<open>try\<close> block, lines 35 to 77.\<close>

definition csv_column_to_mysql_tuple_try ::
  "(csv_source, 'c) world \<Rightarrow> path \<Rightarrow> string \<Rightarrow> bool \<Rightarrow> string option outcome" where
  "csv_column_to_mysql_tuple_try w csv_file column_name add_quotes =
     (case reads w csv_file of
        Inl e \<Rightarrow> ([], Inl e)
      | Inr src \<Rightarrow>
          (case fieldnames src of
             Inl e \<Rightarrow> ([], Inl e)
           | Inr None \<Rightarrow> ([], Inl (TypeError ''can only join an iterable''))
           | Inr (Some fns) \<Rightarrow>
               (let out = [''Available columns: '' @ py_join '', '' fns];
                    (out', actual_column) = resolve_column fns column_name;
                    out = out @ out'
                in case actual_column of
                     None \<Rightarrow>
                       (out @ [''Error: Could not find column matching '' @ SQ @ column_name @ SQ],
                        Inr None)
                   | Some col \<Rightarrow>
                       if col = [] then
                         (out @ [''Error: Could not find column matching '' @ SQ @ column_name @ SQ],
                          Inr None)
                       else
                         (case extract_values col (dict_rows (fst src)) [] of
                            Inl e \<Rightarrow> (out, Inl e)
                          | Inr values \<Rightarrow>
                              (case snd src of
                                 Some e \<Rightarrow> (out, Inl e)
                               | None \<Rightarrow>
                                   if values = [] then
                                     (out @ [''Warning: No values found for column '' @ SQ @ col @ SQ],
                                      Inr None)
                                   else (out, Inr (Some (format_values add_quotes values))))))))"

text \<open>The function with its two handlers, lines 79 to 84.\<close>

definition csv_column_to_mysql_tuple ::
  "(csv_source, 'c) world \<Rightarrow> path \<Rightarrow> string \<Rightarrow> bool \<Rightarrow> string option outcome" where
  "csv_column_to_mysql_tuple w csv_file column_name add_quotes =
     (case csv_column_to_mysql_tuple_try w csv_file column_name add_quotes of
        (out, Inr result) \<Rightarrow> (out, Inr result)
      | (out, Inl (FileNotFoundError m)) \<Rightarrow>
          (out @ [''Error: File '' @ SQ @ csv_file @ SQ @ '' not found.''], Inr None)
      | (out, Inl e) \<Rightarrow>
          (out @ [''Error: An unexpected error occurred: '' @ exc_str e], Inr None))"

subsection \<open>csv\_to\_mysql\_update\_script\<close>

text \<open>Lines 114 to 117: the loop over the rows. The \<open>SET\<close> clause is built first,
  then \<open>row['id']\<close> is read, which raises \<open>KeyError\<close> when the row has no such key.\<close>

definition set_clause :: "row_dict \<Rightarrow> string" where
  "set_clause row =
     py_join '', '' (map (\<lambda>(col, value). format_key col @ '' = '' @ format_cell value)
                       (filter (\<lambda>(col, value). col \<noteq> Some ''id'') row))"

fun update_statements :: "string \<Rightarrow> row_dict list \<Rightarrow> string list \<Rightarrow> py_exception + string list" where
  "update_statements table_name [] stmts = Inr stmts"
| "update_statements table_name (row # rows) stmts =
     (case map_of row (Some ''id'') of
        None \<Rightarrow> Inl (KeyError (py_repr ''id''))
      | Some v \<Rightarrow>
          update_statements table_name rows
            (stmts @ [''Update '' @ table_name @ '' set '' @ set_clause row @
                      '' where id = '' @ format_cell v @ '';'']))"

text \<open>The body of the \<open>try\<close> block, lines 110 to 119. The field names are read when
  the loop asks for the first row.\<close>

definition csv_to_mysql_update_script_try ::
  "(csv_source, 'c) world \<Rightarrow> path \<Rightarrow> string \<Rightarrow> string option outcome" where
  "csv_to_mysql_update_script_try w csv_file table_name =
     (case reads w csv_file of
        Inl e \<Rightarrow> ([], Inl e)
      | Inr src \<Rightarrow>
          (case fieldnames src of
             Inl e \<Rightarrow> ([], Inl e)
           | Inr _ \<Rightarrow>
               (case update_statements table_name (dict_rows (fst src)) [] of
                  Inl e \<Rightarrow> ([], Inl e)
                | Inr stmts \<Rightarrow>
                    (case snd src of
                       Some e \<Rightarrow> ([], Inl e)
                     | None \<Rightarrow> ([], Inr (Some (py_join NL stmts)))))))"

definition csv_to_mysql_update_script ::
  "(csv_source, 'c) world \<Rightarrow> path \<Rightarrow> string \<Rightarrow> string option outcome" where
  "csv_to_mysql_update_script w csv_file table_name =
     (case csv_to_mysql_update_script_try w csv_file table_name of
        (out, Inr result) \<Rightarrow> (out, Inr result)
      | (out, Inl (FileNotFoundError m)) \<Rightarrow>
          (out @ [''Error: File '' @ SQ @ csv_file @ SQ @ '' not found.''], Inr None)
      | (out, Inl e) \<Rightarrow>
          (out @ [''Error: An unexpected error occurred: '' @ exc_str e], Inr None))"

subsection \<open>Paths and writing files\<close>

text \<open>\<open>os.path.split\<close> (POSIX) gives \<open>os.path.dirname\<close> and
  \<open>os.path.basename\<close>: what stands after the last slash, and everything up to that
  slash without the slashes that end it, unless it consists of slashes only.\<close>

definition os_path_dirname :: "path \<Rightarrow> path" where
  "os_path_dirname p =
     (let head = rev (dropWhile (\<lambda>c. c \<noteq> CHR ''/'') (rev p))
      in if head \<noteq> [] \<and> list_ex (\<lambda>c. c \<noteq> CHR ''/'') head
         then rev (dropWhile (\<lambda>c. c = CHR ''/'') (rev head))
         else head)"

definition os_path_basename :: "path \<Rightarrow> path" where
  "os_path_basename p = rev (takeWhile (\<lambda>c. c \<noteq> CHR ''/'') (rev p))"

text \<open>Path resolution. A path is cut at its slashes; an empty part names nothing, so
  the components are the parts that are not empty.\<close>

fun path_parts :: "string \<Rightarrow> string \<Rightarrow> string list" where
  "path_parts cur [] = [cur]"
| "path_parts cur (c # s) =
     (if c = CHR ''/'' then cur # path_parts [] s else path_parts (cur @ [c]) s)"

definition is_absolute :: "path \<Rightarrow> bool" where
  "is_absolute p = prefix ''/'' p"

definition components :: "path \<Rightarrow> string list" where
  "components p = filter (\<lambda>s. s \<noteq> []) (path_parts [] p)"

definition trailing_slash :: "path \<Rightarrow> bool" where
  "trailing_slash p = (p \<noteq> [] \<and> last p = CHR ''/'')"

text \<open>The root, the working directory and the directories above it always exist.\<close>

definition node_is_dir :: "('r, 'c) world \<Rightarrow> node \<Rightarrow> bool" where
  "node_is_dir w n = (prefix n (cwd w) \<or> n \<in> dirs w)"

text \<open>The walk along the components, from a directory that exists. \<open>.\<close> stays where
  it is and \<open>..\<close> leads to the directory above, which for the root is the root. Every
  other component but the last must be a directory that exists. The result is the node
  the path names (\<open>Inr\<close>), whether it exists or not, or the node at which the walk
  stops (\<open>Inl\<close>).\<close>

fun walk :: "('r, 'c) world \<Rightarrow> node \<Rightarrow> string list \<Rightarrow> node + node" where
  "walk w cur [] = Inr cur"
| "walk w cur (c # cs) =
     (if c = ''.'' then walk w cur cs
      else if c = ''..'' then walk w (butlast cur) cs
      else if cs = [] then Inr (cur @ [c])
      else if node_is_dir w (cur @ [c]) then walk w (cur @ [c]) cs
      else Inl (cur @ [c]))"

text \<open>The empty path names nothing (\<open>ENOENT\<close>). A walk that stops at a regular file
  fails with \<open>ENOTDIR\<close>, one that stops at nothing with \<open>ENOENT\<close>.\<close>

definition resolve :: "('r, 'c) world \<Rightarrow> path \<Rightarrow> py_exception + node" where
  "resolve w p =
     (if p = [] then
        Inl (FileNotFoundError (''[Errno 2] No such file or directory: '' @ py_repr p))
      else
        (case walk w (if is_absolute p then [] else cwd w) (components p) of
           Inl bad \<Rightarrow>
             (if bad \<in> dom (contents w)
              then Inl (NotADirectoryError (''[Errno 20] Not a directory: '' @ py_repr p))
              else Inl (FileNotFoundError
                          (''[Errno 2] No such file or directory: '' @ py_repr p)))
         | Inr n \<Rightarrow> Inr n))"

text \<open>\<open>os.path.isdir\<close>, \<open>os.path.exists\<close>, and what the regular file at a path
  holds, if there is one. A path that ends in a slash names a directory or nothing.\<close>

definition path_isdir :: "('r, 'c) world \<Rightarrow> path \<Rightarrow> bool" where
  "path_isdir w p =
     (case resolve w p of
        Inl e \<Rightarrow> False
      | Inr n \<Rightarrow> node_is_dir w n)"

definition path_exists :: "('r, 'c) world \<Rightarrow> path \<Rightarrow> bool" where
  "path_exists w p =
     (case resolve w p of
        Inl e \<Rightarrow> False
      | Inr n \<Rightarrow> node_is_dir w n \<or> (n \<in> dom (contents w) \<and> \<not> trailing_slash p))"

definition file_at :: "('r, 'c) world \<Rightarrow> path \<Rightarrow> 'c option" where
  "file_at w p =
     (case resolve w p of
        Inl e \<Rightarrow> None
      | Inr n \<Rightarrow> if node_is_dir w n \<or> trailing_slash p then None else contents w n)"

text \<open>\<open>os.mkdir\<close>: the directory above must exist, the name must be free, and the
  operating system must not refuse. A call returns what it raised or \<open>()\<close>, and the
  file system it leaves.\<close>

definition os_mkdir :: "path \<Rightarrow> ('r, 'c) world \<Rightarrow> (py_exception + unit) \<times> ('r, 'c) world" where
  "os_mkdir name w =
     (case resolve w name of
        Inl e \<Rightarrow> (Inl e, w)
      | Inr n \<Rightarrow>
          if node_is_dir w n \<or> n \<in> dom (contents w)
          then (Inl (FileExistsError (''[Errno 17] File exists: '' @ py_repr name)), w)
          else
            (case mkdir_fault w name of
               Some e \<Rightarrow> (Inl e, w)
             | None \<Rightarrow> (Inr (), w\<lparr>dirs := insert n (dirs w)\<rparr>)))"

text \<open>\<open>os.makedirs(name, exist_ok=True)\<close>, as the standard library writes it. The
  last lines: \<open>mkdir(name)\<close>, whose \<open>OSError\<close> is raised again unless \<open>name\<close> is
  a directory.\<close>

definition mkdir_exist_ok :: "path \<Rightarrow> ('r, 'c) world \<Rightarrow> (py_exception + unit) \<times> ('r, 'c) world" where
  "mkdir_exist_ok name w =
     (case os_mkdir name w of
        (Inl e, w') \<Rightarrow> if path_isdir w' name then (Inr (), w') else (Inl e, w')
      | (Inr u, w') \<Rightarrow> (Inr (), w'))"

text \<open>The first lines: \<open>head, tail = path.split(name)\<close>, and once more on
  \<open>head\<close> when \<open>tail\<close> is empty.\<close>

definition makedirs_split :: "path \<Rightarrow> path \<times> path" where
  "makedirs_split name =
     (if os_path_basename name = []
      then (os_path_dirname (os_path_dirname name), os_path_basename (os_path_dirname name))
      else (os_path_dirname name, os_path_basename name))"

text \<open>The function: when \<open>head\<close> and \<open>tail\<close> are not empty and \<open>head\<close> does not
  exist, \<open>head\<close> is made first (a \<open>FileExistsError\<close> from there is passed over), and
  nothing more is done when \<open>tail\<close> is \<open>.\<close>; then the last lines. Directories made
  before a failure stay. The empty name reaches \<open>mkdir\<close> at once, which fails on it.\<close>

function os_makedirs :: "path \<Rightarrow> ('r, 'c) world \<Rightarrow> (py_exception + unit) \<times> ('r, 'c) world" where
  "os_makedirs name w =
     (if fst (makedirs_split name) \<noteq> [] \<and> snd (makedirs_split name) \<noteq> [] \<and>
         \<not> path_exists w (fst (makedirs_split name))
      then
        (case os_makedirs (fst (makedirs_split name)) w of
           (Inl (FileExistsError m), w') \<Rightarrow>
             if snd (makedirs_split name) = ''.'' then (Inr (), w') else mkdir_exist_ok name w'
         | (Inl e, w') \<Rightarrow> (Inl e, w')
         | (Inr u, w') \<Rightarrow>
             if snd (makedirs_split name) = ''.'' then (Inr (), w') else mkdir_exist_ok name w')
      else mkdir_exist_ok name w)"
  by pat_completeness auto
termination
proof -
  have split_length: "length (os_path_dirname p) + length (os_path_basename p) \<le> length p" for p
  proof -
    let ?P = "\<lambda>c. c \<noteq> CHR ''/''"
    have "length (takeWhile ?P (rev p)) + length (dropWhile ?P (rev p)) = length p"
      by (metis length_append length_rev takeWhile_dropWhile_id)
    moreover have "length (dropWhile (\<lambda>c. c = CHR ''/'') (rev (rev (dropWhile ?P (rev p))))) \<le>
                   length (dropWhile ?P (rev p))"
      by (simp add: length_dropWhile_le)
    ultimately show ?thesis
      by (auto simp: os_path_dirname_def os_path_basename_def Let_def)
  qed
  have strict: "length (os_path_dirname p) < length p" if "os_path_basename p \<noteq> []" for p
    using that split_length [of p] by (cases "os_path_basename p") simp_all
  have weak: "length (os_path_dirname p) \<le> length p" for p
    using split_length [of p] by (rule add_leD1)
  have shorter: "length (fst (makedirs_split name)) < length name"
    if "snd (makedirs_split name) \<noteq> []" for name
  proof (cases "os_path_basename name = []")
    case True
    then have "os_path_basename (os_path_dirname name) \<noteq> []"
      using that by (simp add: makedirs_split_def)
    then have "length (os_path_dirname (os_path_dirname name)) < length (os_path_dirname name)"
      by (rule strict)
    then have "length (os_path_dirname (os_path_dirname name)) < length name"
      using weak [of name] by (rule less_le_trans)
    then show ?thesis
      using True by (simp add: makedirs_split_def)
  next
    case False
    then show ?thesis
      using strict [of name] by (simp add: makedirs_split_def)
  qed
  show ?thesis
    by (relation "measure (\<lambda>(name, w). length name)") (auto simp: shorter)
qed

declare os_makedirs.simps [simp del]

text \<open>Opening a path with mode \<open>'w'\<close> and writing the whole content: the directory
  above must exist and the path must not name a directory nor end in a slash; the file
  then holds exactly that content.\<close>

definition write_file :: "path \<Rightarrow> 'c \<Rightarrow> ('r, 'c) world \<Rightarrow> py_exception + ('r, 'c) world" where
  "write_file p c w =
     (case resolve w p of
        Inl e \<Rightarrow> Inl e
      | Inr n \<Rightarrow>
          if node_is_dir w n \<or> trailing_slash p then
            Inl (IsADirectoryError (''[Errno 21] Is a directory: '' @ py_repr p))
          else
            (case write_fault w p of
               Some e \<Rightarrow> Inl e
             | None \<Rightarrow> Inr (w\<lparr>contents := (contents w)(n \<mapsto> c)\<rparr>)))"

subsection \<open>save\_to\_file\<close>

text \<open>Lines 136 to 144: the directory part of the path is made, the file is written and
  the path is reported. Every exception is printed and goes no further; what
  \<open>os.makedirs\<close> has made before it failed stays.\<close>

definition save_to_file ::
  "string \<Rightarrow> path \<Rightarrow> ('r, string) world \<Rightarrow> unit outcome \<times> ('r, string) world" where
  "save_to_file content output_file w =
     (case os_makedirs (os_path_dirname output_file) w of
        (Inl e, w1) \<Rightarrow> (([''Error saving to file: '' @ exc_str e], Inr ()), w1)
      | (Inr u, w1) \<Rightarrow>
          (case write_file output_file content w1 of
             Inl e \<Rightarrow> (([''Error saving to file: '' @ exc_str e], Inr ()), w1)
           | Inr w2 \<Rightarrow> (([''Result saved to: '' @ output_file], Inr ()), w2)))"

subsection \<open>main\<close>

text \<open>Lines 151 to 168: the flag, then the column name and the output file.
  \<open>args[-1]\<close> raises \<open>IndexError\<close> when nothing is left after the flag.\<close>

definition parse_args :: "string list \<Rightarrow> py_exception + (bool \<times> string list \<times> string \<times> string option)" where
  "parse_args args0 =
     (let add_quotes = (''--no-quotes'' \<notin> set args0);
          args = (if ''--no-quotes'' \<in> set args0 then remove1 ''--no-quotes'' args0 else args0)
      in if args = [] then Inl (IndexError ''list index out of range'')
         else
           (let last_arg = last args
            in if length args > 1 \<and> prefix ''output'' last_arg
               then Inr (add_quotes, args, py_join '' '' (butlast args), Some last_arg)
               else Inr (add_quotes, args, py_join '' '' args, None)))"

definition main ::
  "string list \<Rightarrow> (csv_source, string) world \<Rightarrow> unit outcome \<times> (csv_source, string) world" where
  "main argv w =
     (if length argv < 3 then
        (([''Usage: python csv_to_mysql.py <csv_file> <column_name> [--no-quotes] [output_file]''],
          Inr ()), w)
      else
        (let csv_file = argv ! 1
         in case parse_args (drop 2 argv) of
              Inl e \<Rightarrow> (([], Inl e), w)
            | Inr (add_quotes, args, column_name, output_file) \<Rightarrow>
                (let (out, result) =
                       (if py_lower column_name = ''update_script''
                        then csv_to_mysql_update_script w csv_file (hd args)
                        else csv_column_to_mysql_tuple w csv_file column_name add_quotes)
                 in case result of
                      Inl e \<Rightarrow> ((out, Inl e), w)
                    | Inr r \<Rightarrow>
                        if py_truthy r then
                          (if py_truthy output_file then
                             (let ((out', _), w') = save_to_file (the r) (the output_file) w
                              in ((out @ out' @ [the r], Inr ()), w'))
                           else ((out @ [the r], Inr ()), w))
                        else ((out, Inr ()), w))))"

section \<open>deduplicate\_csv.py\<close>

text \<open>
  The table pandas holds: the column labels in their order and the rows, each the list
  of its cells in column order. A cell is the value pandas read for it; two rows are
  equal when all their cells are.
\<close>

record 'v dataframe =
  columns :: "string list"
  data_rows :: "'v list list"

text \<open>Modelled from the spec: \<open>DataFrame.drop_duplicates()\<close> is code of pandas and
  not of the source files. The spec describes it as retaining only the first occurrence
  of each distinct row, full-row equality across all columns, order preserved, first
  seen wins. The rows are read in order; one that was seen before is dropped.\<close>

fun keep_first :: "'a list \<Rightarrow> 'a list \<Rightarrow> 'a list" where
  "keep_first seen [] = []"
| "keep_first seen (r # rs) =
     (if r \<in> set seen then keep_first seen rs else r # keep_first (r # seen) rs)"

definition drop_duplicates :: "'v dataframe \<Rightarrow> 'v dataframe" where
  "drop_duplicates df = df\<lparr>data_rows := keep_first [] (data_rows df)\<rparr>"

text \<open>\<open>os.path.splitext\<close> and \<open>os.path.join\<close> (POSIX). The extension starts at
  the last dot of the last component, unless only dots stand before it there.\<close>

definition os_path_splitext :: "path \<Rightarrow> path \<times> string" where
  "os_path_splitext p =
     (let name = os_path_basename p;
          ext = rev (takeWhile (\<lambda>c. c \<noteq> CHR ''.'') (rev name));
          stem = take (length name - length ext - 1) name
      in if CHR ''.'' \<in> set name \<and> list_ex (\<lambda>c. c \<noteq> CHR ''.'') stem
         then (take (length p - length ext - 1) p, CHR ''.'' # ext)
         else (p, []))"

definition os_path_join :: "path \<Rightarrow> path \<Rightarrow> path" where
  "os_path_join a b =
     (if prefix ''/'' b then b
      else if a = [] \<or> last a = CHR ''/'' then a @ b
      else a @ ''/'' @ b)"

text \<open>\<open>str\<close> of a natural number, for the printed counts.\<close>

fun str_nat :: "nat \<Rightarrow> string" where
  "str_nat n =
     (if n < 10 then [''0123456789'' ! n]
      else str_nat (n div 10) @ [''0123456789'' ! (n mod 10)])"

text \<open>Lines 41 to 53: the directory and the path of the output file. \<open>timestamp\<close>
  is the clock's reading as line 41 formats it.\<close>

definition resolved_output_dir :: "path \<Rightarrow> path option \<Rightarrow> path" where
  "resolved_output_dir input_file output_dir =
     (case output_dir of
        None \<Rightarrow> os_path_dirname input_file
      | Some d \<Rightarrow> d)"

definition output_path :: "string \<Rightarrow> path \<Rightarrow> path option \<Rightarrow> path" where
  "output_path timestamp input_file output_dir =
     (let input_filename = fst (os_path_splitext (os_path_basename input_file));
          output_filename = input_filename @ ''_deduplicated_'' @ timestamp @ ''.csv''
      in os_path_join (resolved_output_dir input_file output_dir) output_filename)"

text \<open>The function. No exception is caught: the first one ends the call. The file is
  written without an index column, so it holds the column labels and the rows.\<close>

definition deduplicate_csv ::
  "string \<Rightarrow> path \<Rightarrow> path option \<Rightarrow> ('v dataframe, 'v dataframe) world \<Rightarrow>
     path outcome \<times> ('v dataframe, 'v dataframe) world" where
  "deduplicate_csv timestamp input_file output_dir w =
     (case reads w input_file of
        Inl e \<Rightarrow> (([], Inl e), w)
      | Inr df \<Rightarrow>
          (let df_deduplicated = drop_duplicates df
           in case os_makedirs (resolved_output_dir input_file output_dir) w of
                (Inl e, w1) \<Rightarrow> (([], Inl e), w1)
              | (Inr u, w1) \<Rightarrow>
                  (case write_file (output_path timestamp input_file output_dir)
                          df_deduplicated w1 of
                     Inl e \<Rightarrow> (([], Inl e), w1)
                   | Inr w2 \<Rightarrow>
                       (let total_rows = length (data_rows df);
                            unique_rows = length (data_rows df_deduplicated);
                            duplicates = total_rows - unique_rows
                        in (([''Processing complete:'',
                              ''Total rows: '' @ str_nat total_rows,
                              ''Unique rows: '' @ str_nat unique_rows,
                              ''Duplicates removed: '' @ str_nat duplicates,
                              ''Output saved to: '' @
                                output_path timestamp input_file output_dir],
                             Inr (output_path timestamp input_file output_dir)), w2)))))"

section \<open>The terms of the specification\<close>

text \<open>The place of a column in the header: the number of field names before its
  first occurrence.\<close>

definition index_of :: "'a \<Rightarrow> 'a list \<Rightarrow> nat" where
  "index_of x xs = length (takeWhile (\<lambda>y. y \<noteq> x) xs)"

text \<open>The specification's value list of a column: each row's value in that column in
  row order, trimmed, the empty ones discarded. A blank line is no row.\<close>

definition column_values :: "string \<Rightarrow> string list \<Rightarrow> string list list \<Rightarrow> string list" where
  "column_values col fns rest =
     filter (\<lambda>v. v \<noteq> [])
       (map (\<lambda>row. py_strip (row ! index_of col fns)) (filter (\<lambda>row. row \<noteq> []) rest))"

text \<open>The specification's test on a tuple string: the outer parentheses are taken off
  and the rest is split at every \<open>", "\<close>, read from the left.\<close>

fun split_comma_space :: "string \<Rightarrow> string \<Rightarrow> string list" where
  "split_comma_space cur [] = [cur]"
| "split_comma_space cur [c] = [cur @ [c]]"
| "split_comma_space cur (c # d # s) =
     (if c = CHR '','' \<and> d = CHR '' '' then cur # split_comma_space [] s
      else split_comma_space (cur @ [c]) (d # s))"

definition reconstruct :: "string \<Rightarrow> string list" where
  "reconstruct s = split_comma_space [] (butlast (tl s))"

fun has_comma_space :: "string \<Rightarrow> bool" where
  "has_comma_space (c # d # s) = ((c = CHR '','' \<and> d = CHR '' '') \<or> has_comma_space (d # s))"
| "has_comma_space s = False"


text \<open>A file system with one readable file and nothing in the way of writing: the
  working directory is \<open>/home/user\<close>, and no other directory and no written file
  exists yet.\<close>

definition single_file_world :: "path \<Rightarrow> 'r \<Rightarrow> ('r, 'c) world" where
  "single_file_world f r =
     \<lparr>reads = (\<lambda>p. if p = f then Inr r
                    else Inl (FileNotFoundError
                                (''[Errno 2] No such file or directory: '' @ py_repr p))),
      mkdir_fault = (\<lambda>p. None),
      write_fault = (\<lambda>p. None),
      cwd = [''home'', ''user''],
      dirs = {},
      contents = Map.empty\<rparr>"

text \<open>One line of the update script as the specification words it: the columns other
  than \<open>id\<close> in header order, each with the row's value as read, and the row's
  \<open>id\<close> value.\<close>

definition update_line :: "string \<Rightarrow> string list \<Rightarrow> string list \<Rightarrow> string" where
  "update_line table_name fns row =
     ''Update '' @ table_name @ '' set '' @
     py_join '', '' (map (\<lambda>(col, value). col @ '' = '' @ value)
                       (filter (\<lambda>(col, value). col \<noteq> ''id'') (zip fns row))) @
     '' where id = '' @ row ! index_of ''id'' fns @ '';''"

section \<open>Row dictionaries\<close>

lemma map_of_dict_set: "map_of (dict_set k v d) = (map_of d)(k \<mapsto> v)"
  by (induction d) (auto simp: fun_eq_iff)

lemma dict_set_fresh: "map_of d k = None \<Longrightarrow> dict_set k v d = d @ [(k, v)]"
  by (induction d) (auto split: if_splits)

lemma map_of_fold_zip_other:
  "k \<notin> fst ` set kvs \<Longrightarrow>
   map_of (fold (\<lambda>(k, v). dict_set (Some k) (Str v)) kvs d) (Some k) = map_of d (Some k)"
  by (induction kvs arbitrary: d) (auto simp: map_of_dict_set)

lemma map_of_fold_zip:
  "distinct (map fst kvs) \<Longrightarrow> (k, v) \<in> set kvs \<Longrightarrow>
   map_of (fold (\<lambda>(k, v). dict_set (Some k) (Str v)) kvs d) (Some k) = Some (Str v)"
  by (induction kvs arbitrary: d) (auto simp: map_of_dict_set map_of_fold_zip_other rev_image_eqI)

lemma map_of_fold_none_other:
  "k \<notin> set ks \<Longrightarrow>
   map_of (fold (\<lambda>k. dict_set (Some k) NoneVal) ks d) (Some k) = map_of d (Some k)"
  by (induction ks arbitrary: d) (auto simp: map_of_dict_set)

text \<open>A name that is no field name is no key of any row.\<close>

lemma dict_row_absent:
  assumes "k \<notin> set fns"
  shows "map_of (dict_row fns row) (Some k) = None"
proof -
  have a: "k \<notin> fst ` set (zip fns row)"
    using assms by (auto dest: set_zip_leftD)
  have b: "k \<notin> set (drop (length row) fns)"
    using assms by (auto dest: in_set_dropD)
  show ?thesis
    by (simp add: dict_row_def Let_def map_of_dict_set map_of_fold_none_other [OF b]
        map_of_fold_zip_other [OF a])
qed

text \<open>Under distinct field names a row that reaches a column holds its field there.\<close>

lemma dict_row_present:
  assumes "distinct fns" "i < length fns" "i < length row"
  shows "map_of (dict_row fns row) (Some (fns ! i)) = Some (Str (row ! i))"
proof -
  let ?kvs = "zip fns row"
  let ?d = "fold (\<lambda>(k, v). dict_set (Some k) (Str v)) ?kvs []"
  have d: "distinct (map fst ?kvs)"
    using assms(1) by (simp add: map_fst_zip_take)
  have "(fns ! i, row ! i) \<in> set ?kvs"
    using assms(2,3) by (auto simp: set_zip)
  then have look: "map_of ?d (Some (fns ! i)) = Some (Str (row ! i))"
    using d by (rule map_of_fold_zip [rotated])
  have "fns ! i \<notin> set (drop (length row) fns)"
    using assms by (auto simp: in_set_conv_nth nth_eq_iff_index_eq)
  then show ?thesis
    using look by (simp add: dict_row_def Let_def map_of_dict_set map_of_fold_none_other)
qed

lemma fold_dict_set_append:
  "distinct (map fst kvs) \<Longrightarrow> (\<forall>k\<in>fst ` set kvs. map_of d (Some k) = None) \<Longrightarrow>
   fold (\<lambda>(k, v). dict_set (Some k) (Str v)) kvs d = d @ map (\<lambda>(k, v). (Some k, Str v)) kvs"
proof (induction kvs arbitrary: d)
  case Nil
  then show ?case by simp
next
  case (Cons kv kvs)
  obtain k v where kv: "kv = (k, v)" by (cases kv)
  have fresh: "map_of d (Some k) = None" using Cons.prems(2) kv by simp
  have "\<forall>k'\<in>fst ` set kvs. map_of (d @ [(Some k, Str v)]) (Some k') = None"
    using Cons.prems kv by (auto simp: map_add_def rev_image_eqI)
  with Cons.IH [of "d @ [(Some k, Str v)]"] Cons.prems(1) kv fresh show ?case
    by (simp add: dict_set_fresh)
qed

text \<open>A row as long as a header of distinct names becomes the header zipped with it.\<close>

lemma dict_row_rectangular:
  "distinct fns \<Longrightarrow> length row = length fns \<Longrightarrow>
   dict_row fns row = map (\<lambda>(k, v). (Some k, Str v)) (zip fns row)"
  using fold_dict_set_append [of "zip fns row" "[]"]
  by (simp add: dict_row_def Let_def map_fst_zip_take)

lemma index_of_less: "x \<in> set xs \<Longrightarrow> index_of x xs < length xs"
  unfolding index_of_def by (induction xs) auto

lemma nth_index_of: "x \<in> set xs \<Longrightarrow> xs ! index_of x xs = x"
  unfolding index_of_def by (induction xs) auto

lemma find_in_set: "List.find P xs = Some x \<Longrightarrow> x \<in> set xs"
  by (auto simp: find_Some_iff)

lemma resolve_column_in_set:
  "snd (resolve_column fns column_name) = Some col \<Longrightarrow> col \<in> set fns"
  by (auto simp: resolve_column_def Let_def split: if_splits option.splits dest: find_in_set)

section \<open>The column extractor\<close>

text \<open>The loop of lines 62 to 66 against the specification's value list; the list built
  so far is generalised.\<close>

lemma extract_values_spec:
  assumes "distinct fns" "col \<in> set fns"
    and "\<forall>row\<in>set rs. index_of col fns < length row"
  shows "extract_values col (map (dict_row fns) rs) acc =
         Inr (acc @ filter (\<lambda>v. v \<noteq> []) (map (\<lambda>row. py_strip (row ! index_of col fns)) rs))"
  using assms(3)
proof (induction rs arbitrary: acc)
  case Nil
  then show ?case by simp
next
  case (Cons row rs)
  have "map_of (dict_row fns row) (Some (fns ! index_of col fns)) =
        Some (Str (row ! index_of col fns))"
    using assms(1,2) Cons.prems by (intro dict_row_present) (simp_all add: index_of_less)
  then have look: "map_of (dict_row fns row) (Some col) = Some (Str (row ! index_of col fns))"
    using assms(2) by (simp add: nth_index_of)
  show ?case
    using Cons.prems by (simp add: look Let_def Cons.IH)
qed

lemma extract_values_file:
  assumes "distinct fns" "col \<in> set fns"
    and "\<forall>row\<in>set rest. row = [] \<or> index_of col fns < length row"
  shows "extract_values col (dict_rows (fns # rest)) [] = Inr (column_values col fns rest)"
proof -
  have "\<forall>row\<in>set (filter (\<lambda>row. row \<noteq> []) rest). index_of col fns < length row"
    using assms(3) by auto
  then show ?thesis
    using extract_values_spec [OF assms(1,2), of _ "[]"]
    by (simp add: dict_rows_def column_values_def)
qed

text \<open>
  Claim C1. For a CSV file with a header row and a column name that resolves against
  the header, \<open>csv_column_to_mysql_tuple\<close> returns each row's value in the resolved
  column, in row order, trimmed, without those that become empty, each in single quotes
  exactly when \<open>add_quotes\<close> is true, joined with \<open>", "\<close> and enclosed in
  parentheses; when no value is left the result is absent. The file is a table: its
  field names are distinct and every row that is not a blank line has a field in the
  resolved column.
\<close>

theorem column_tuple_formats_column_values:
  assumes "reads w csv_file = Inr (fns # rest, None)"
    and "snd (resolve_column fns column_name) = Some col" and "col \<noteq> []"
    and "distinct fns"
    and "\<forall>row\<in>set rest. row = [] \<or> index_of col fns < length row"
  shows "snd (csv_column_to_mysql_tuple w csv_file column_name add_quotes) =
         Inr (if column_values col fns rest = [] then None
              else Some (''('' @ py_join '', ''
                                  (map (\<lambda>v. if add_quotes then SQ @ v @ SQ else v)
                                     (column_values col fns rest)) @ '')''))"
proof -
  have ex: "extract_values col (dict_rows (fns # rest)) [] = Inr (column_values col fns rest)"
    using assms(4) resolve_column_in_set [OF assms(2)] assms(5) by (rule extract_values_file)
  obtain out where res: "resolve_column fns column_name = (out, Some col)"
    using assms(2) by (cases "resolve_column fns column_name") simp
  show ?thesis
    using assms(1,3) ex res
    by (simp add: csv_column_to_mysql_tuple_def csv_column_to_mysql_tuple_try_def fieldnames_def
        format_values_def)
qed

theorem column_tuple_formats_column_values_witness:
  "snd (csv_column_to_mysql_tuple
          (single_file_world ''test.csv''
             ([[''PRODUCT_CODE'', ''Qty''],
               [''ABC123'', ''1''], [], [''   '', ''2''], ['' DEF456 '', ''3'', ''extra'']], None))
          ''test.csv'' ''product_code'' True) =
   Inr (Some (''('' @ SQ @ ''ABC123'' @ SQ @ '', '' @ SQ @ ''DEF456'' @ SQ @ '')''))"
proof -
  let ?fns = "[''PRODUCT_CODE'', ''Qty'']"
  let ?rest = "[[''ABC123'', ''1''], [], [''   '', ''2''], ['' DEF456 '', ''3'', ''extra'']]"
  have vals: "column_values ''PRODUCT_CODE'' ?fns ?rest = [''ABC123'', ''DEF456'']"
    by (simp add: column_values_def index_of_def py_strip_def py_isspace_def)
  have "snd (csv_column_to_mysql_tuple
          (single_file_world ''test.csv'' (?fns # ?rest, None)) ''test.csv'' ''product_code'' True) =
        Inr (if column_values ''PRODUCT_CODE'' ?fns ?rest = [] then None
              else Some (''('' @ py_join '', ''
                                  (map (\<lambda>v. if True then SQ @ v @ SQ else v)
                                     (column_values ''PRODUCT_CODE'' ?fns ?rest)) @ '')''))"
    by (rule column_tuple_formats_column_values)
      (simp_all add: single_file_world_def resolve_column_def py_lower_def lower_char_def
        is_upper_def index_of_def)
  then show ?thesis
    by (simp add: vals)
qed

section \<open>The update script generator\<close>

lemma set_clause_rectangular:
  "set_clause (map (\<lambda>(k, v). (Some k, Str v)) kvs) =
   py_join '', '' (map (\<lambda>(col, value). col @ '' = '' @ value)
                     (filter (\<lambda>(col, value). col \<noteq> ''id'') kvs))"
proof -
  have "filter (\<lambda>(col, value). col \<noteq> Some ''id'') (map (\<lambda>(k, v). (Some k, Str v)) kvs) =
        map (\<lambda>(k, v). (Some k, Str v)) (filter (\<lambda>(col, value). col \<noteq> ''id'') kvs)"
    by (induction kvs) auto
  then show ?thesis
    by (simp add: set_clause_def case_prod_unfold comp_def)
qed

lemma update_statements_spec:
  assumes "distinct fns" "''id'' \<in> set fns"
    and "\<forall>row\<in>set rs. length row = length fns"
  shows "update_statements table_name (map (dict_row fns) rs) acc =
         Inr (acc @ map (update_line table_name fns) rs)"
  using assms(3)
proof (induction rs arbitrary: acc)
  case Nil
  then show ?case by simp
next
  case (Cons row rs)
  have len: "length row = length fns" using Cons.prems by simp
  have "map_of (dict_row fns row) (Some (fns ! index_of ''id'' fns)) =
        Some (Str (row ! index_of ''id'' fns))"
    using assms(1,2) len by (intro dict_row_present) (simp_all add: index_of_less)
  then have look: "map_of (dict_row fns row) (Some ''id'') = Some (Str (row ! index_of ''id'' fns))"
    using assms(2) by (simp add: nth_index_of)
  have clause: "set_clause (dict_row fns row) =
        py_join '', '' (map (\<lambda>(col, value). col @ '' = '' @ value)
                     (filter (\<lambda>(col, value). col \<noteq> ''id'') (zip fns row)))"
    using assms(1) len by (simp add: dict_row_rectangular set_clause_rectangular)
  show ?case
    using Cons.prems by (simp add: look clause update_line_def Cons.IH)
qed

lemma update_script_table:
  assumes "reads w csv_file = Inr (fns # rest, None)"
    and "distinct fns" and "''id'' \<in> set fns"
    and "\<forall>row\<in>set rest. row = [] \<or> length row = length fns"
  shows "csv_to_mysql_update_script w csv_file table_name =
         ([], Inr (Some (py_join NL (map (update_line table_name fns)
                                        (filter (\<lambda>row. row \<noteq> []) rest)))))"
proof -
  have "\<forall>row\<in>set (filter (\<lambda>row. row \<noteq> []) rest). length row = length fns"
    using assms(4) by auto
  then have "update_statements table_name (dict_rows (fns # rest)) [] =
             Inr (map (update_line table_name fns) (filter (\<lambda>row. row \<noteq> []) rest))"
    using update_statements_spec [OF assms(2,3), of _ table_name "[]"]
    by (simp add: dict_rows_def)
  then show ?thesis
    using assms(1)
    by (simp add: csv_to_mysql_update_script_def csv_to_mysql_update_script_try_def fieldnames_def)
qed

lemma update_script_example:
  "csv_to_mysql_update_script
     (single_file_world ''source.csv''
        ([[''id'', ''name'', ''age''],
          [''1'', SQ @ ''may'' @ SQ, ''10''],
          [''2'', SQ @ ''Allen'' @ SQ, ''15'']], None))
     ''source.csv'' ''user'' =
   ([], Inr (Some (''Update user set name = '' @ SQ @ ''may'' @ SQ @ '', age = 10 where id = 1;'' @ NL @
                   ''Update user set name = '' @ SQ @ ''Allen'' @ SQ @ '', age = 15 where id = 2;'')))"
  by (simp add: csv_to_mysql_update_script_def csv_to_mysql_update_script_try_def fieldnames_def
      single_file_world_def dict_rows_def dict_row_def set_clause_def)

text \<open>
  Claim C2. For a CSV file whose header includes a column named \<open>id\<close>, and every
  table name, \<open>csv_to_mysql_update_script\<close> returns one line
  \<open>Update <table_name> set <set_clause> where id = <id_value>;\<close> per row, in row
  order, joined by newlines with none at the end; the set clause joins
  \<open><column> = <value>\<close> for every column except \<open>id\<close> in header order with
  \<open>", "\<close>, the values as read. The file is a table: distinct field names, every row
  that is not a blank line as long as the header. The header \<open>id,name,age\<close> with the
  rows \<open>(1,'may',10)\<close> and \<open>(2,'Allen',15)\<close> and the table \<open>user\<close> gives
  exactly the two statements of the specification's example.
\<close>

theorem update_script_lines:
  "(\<forall>w csv_file table_name fns rest.
      reads w csv_file = Inr (fns # rest, None) \<and> distinct fns \<and> ''id'' \<in> set fns \<and>
      (\<forall>row\<in>set rest. row = [] \<or> length row = length fns) \<longrightarrow>
      csv_to_mysql_update_script w csv_file table_name =
        ([], Inr (Some (py_join NL (map (update_line table_name fns)
                                       (filter (\<lambda>row. row \<noteq> []) rest)))))) \<and>
   csv_to_mysql_update_script
     (single_file_world ''source.csv''
        ([[''id'', ''name'', ''age''],
          [''1'', SQ @ ''may'' @ SQ, ''10''],
          [''2'', SQ @ ''Allen'' @ SQ, ''15'']], None))
     ''source.csv'' ''user'' =
   ([], Inr (Some (''Update user set name = '' @ SQ @ ''may'' @ SQ @ '', age = 10 where id = 1;'' @ NL @
                   ''Update user set name = '' @ SQ @ ''Allen'' @ SQ @ '', age = 15 where id = 2;'')))"
  using update_script_table update_script_example by blast

theorem update_script_lines_witness:
  "csv_to_mysql_update_script
     (single_file_world ''t.csv''
        ([[''name'', ''id'', ''note''],
          [''Ann'', ''7'', ''a, b''],
          [],
          [''Bob'', ''8'', '''']], None))
     ''t.csv'' ''people'' =
   ([], Inr (Some (''Update people set name = Ann, note = a, b where id = 7;'' @ NL @
                   ''Update people set name = Bob, note =  where id = 8;'')))"
proof -
  let ?fns = "[''name'', ''id'', ''note'']"
  let ?rest = "[[''Ann'', ''7'', ''a, b''], [], [''Bob'', ''8'', '''']]"
  let ?w = "single_file_world ''t.csv'' (?fns # ?rest, None) :: (csv_source, 'a) world"
  have "reads ?w ''t.csv'' = Inr (?fns # ?rest, None) \<and> distinct ?fns \<and> ''id'' \<in> set ?fns \<and>
      (\<forall>row\<in>set ?rest. row = [] \<or> length row = length ?fns)"
    by (simp add: single_file_world_def)
  with update_script_lines
  have "csv_to_mysql_update_script ?w ''t.csv'' ''people'' =
        ([], Inr (Some (py_join NL (map (update_line ''people'' ?fns)
                                       (filter (\<lambda>row. row \<noteq> []) ?rest)))))"
    by blast
  then show ?thesis
    by (simp add: update_line_def index_of_def)
qed

lemma py_repr_id: "py_repr ''id'' = SQ @ ''id'' @ SQ"
  by (simp add: py_repr_def repr_char_def py_printable_def Let_def)

lemma update_statements_no_id:
  assumes "''id'' \<notin> set fns" and "rs \<noteq> []"
  shows "update_statements table_name (map (dict_row fns) rs) acc =
         Inl (KeyError (SQ @ ''id'' @ SQ))"
proof -
  obtain row rs' where "rs = row # rs'"
    using assms(2) by (cases rs) auto
  then show ?thesis
    using dict_row_absent [OF assms(1)] by (simp add: py_repr_id)
qed

text \<open>
  Claim C8. For a CSV file whose header lacks an \<open>id\<close> column but that has at least
  one data row, \<open>csv_to_mysql_update_script\<close> does not raise out of its loop: the
  missing key becomes one reported failure, and the result is absent. This holds
  whatever the rows hold and whether or not reading would fail later in the file.
\<close>

theorem missing_id_is_one_reported_failure:
  assumes "reads w csv_file = Inr (fns # rest, fault)"
    and "''id'' \<notin> set fns"
    and "\<exists>row\<in>set rest. row \<noteq> []"
  shows "csv_to_mysql_update_script w csv_file table_name =
         ([''Error: An unexpected error occurred: '' @ SQ @ ''id'' @ SQ], Inr None)"
proof -
  have "filter (\<lambda>row. row \<noteq> []) rest \<noteq> []"
    using assms(3) by (auto simp: filter_empty_conv)
  then have "update_statements table_name (dict_rows (fns # rest)) [] =
             Inl (KeyError (SQ @ ''id'' @ SQ))"
    using update_statements_no_id [OF assms(2)] by (simp add: dict_rows_def)
  then show ?thesis
    using assms(1)
    by (simp add: csv_to_mysql_update_script_def csv_to_mysql_update_script_try_def fieldnames_def)
qed

theorem missing_id_is_one_reported_failure_witness:
  "csv_to_mysql_update_script
     (single_file_world ''people.csv''
        ([[''name'', ''age''], [], [''Ann'', ''31''], [''Bob'']], None))
     ''people.csv'' ''people'' =
   ([''Error: An unexpected error occurred: '' @ SQ @ ''id'' @ SQ], Inr None)"
  by (rule missing_id_is_one_reported_failure [where fns = "[''name'', ''age'']"
        and rest = "[[], [''Ann'', ''31''], [''Bob'']]" and fault = None])
    (simp_all add: single_file_world_def)

section \<open>The command line\<close>

lemma update_script_header_only:
  assumes "reads w csv_file = Inr (fns # rest, None)" and "\<forall>row\<in>set rest. row = []"
  shows "csv_to_mysql_update_script w csv_file table_name = ([], Inr (Some []))"
proof -
  have "filter (\<lambda>row. row \<noteq> []) rest = []"
    using assms(2) by (auto simp: filter_empty_conv)
  then show ?thesis
    using assms(1)
    by (simp add: csv_to_mysql_update_script_def csv_to_mysql_update_script_try_def
        fieldnames_def dict_rows_def)
qed

lemma parse_args_nonempty:
  "parse_args args0 = Inr (add_quotes, args, column_name, output_file) \<Longrightarrow> args0 \<noteq> []"
  by (auto simp: parse_args_def Let_def split: if_splits)

text \<open>
  Claim C10. For a CSV file that holds a header row and no data row (blank lines do not
  count), \<open>csv_to_mysql_update_script\<close> returns the empty string, and \<open>main\<close>
  treats that result like a failure: whatever the arguments that select the update
  script, with or without an output path, it prints nothing and leaves the file system
  as it was.
\<close>

theorem header_only_script_is_dropped:
  assumes "reads w csv_file = Inr (fns # rest, None)" and "\<forall>row\<in>set rest. row = []"
  shows "csv_to_mysql_update_script w csv_file table_name = ([], Inr (Some [])) \<and>
         (\<forall>prog args0 add_quotes args column_name output_file.
            parse_args args0 = Inr (add_quotes, args, column_name, output_file) \<and>
            py_lower column_name = ''update_script'' \<longrightarrow>
            main (prog # csv_file # args0) w = (([], Inr ()), w))"
proof (intro conjI allI impI)
  show "csv_to_mysql_update_script w csv_file table_name = ([], Inr (Some []))"
    using assms by (rule update_script_header_only)
next
  fix prog args0 add_quotes args column_name output_file
  assume a: "parse_args args0 = Inr (add_quotes, args, column_name, output_file) \<and>
             py_lower column_name = ''update_script''"
  then have "args0 \<noteq> []" by (auto dest: parse_args_nonempty)
  then have len: "\<not> length (prog # csv_file # args0) < 3" by (cases args0) auto
  show "main (prog # csv_file # args0) w = (([], Inr ()), w)"
    using a len update_script_header_only [OF assms, of "hd args"]
    by (simp add: main_def)
qed

theorem header_only_script_is_dropped_witness:
  "main [''csv_to_mysql.py'', ''source.csv'', ''update_script'', ''output/script.sql'']
     (single_file_world ''source.csv'' ([[''id'', ''name'', ''age'']], None)) =
   (([], Inr ()), single_file_world ''source.csv'' ([[''id'', ''name'', ''age'']], None))"
proof -
  let ?w = "single_file_world ''source.csv'' ([[''id'', ''name'', ''age'']], None)
              :: (csv_source, string) world"
  have r: "reads ?w ''source.csv'' = Inr ([''id'', ''name'', ''age''] # [], None)"
    by (simp add: single_file_world_def)
  have b: "\<forall>row\<in>set ([] :: string list list). row = []"
    by simp
  have p: "parse_args [''update_script'', ''output/script.sql''] =
           Inr (True, [''update_script'', ''output/script.sql''], ''update_script'',
                Some ''output/script.sql'')"
    by (simp add: parse_args_def Let_def)
  have l: "py_lower ''update_script'' = ''update_script''"
    by (simp add: py_lower_def lower_char_def is_upper_def)
  from header_only_script_is_dropped [OF r b, of "''x''"] p l
  show ?thesis by blast
qed

section \<open>Column resolution\<close>

lemma tuple_result_of_try:
  "snd (csv_column_to_mysql_tuple w csv_file column_name add_quotes) =
   (case snd (csv_column_to_mysql_tuple_try w csv_file column_name add_quotes) of
      Inl e \<Rightarrow> Inr None
    | Inr result \<Rightarrow> Inr result)"
  by (simp add: csv_column_to_mysql_tuple_def split: prod.splits sum.splits py_exception.splits)

lemma find_sat: "List.find P xs = Some x \<Longrightarrow> P x \<and> x \<in> set xs"
  by (auto simp: find_Some_iff)

text \<open>The result of the extractor depends on the column name only through the column
  it resolves to.\<close>

lemma tuple_result_by_resolved_column:
  assumes "snd (resolve_column fns n1) = Some col" "snd (resolve_column fns n2) = Some col"
    and "col \<noteq> []" and "reads w csv_file = Inr (fns # rest, fault)"
  shows "snd (csv_column_to_mysql_tuple w csv_file n1 add_quotes) =
         snd (csv_column_to_mysql_tuple w csv_file n2 add_quotes)"
proof -
  obtain o1 o2 where r: "resolve_column fns n1 = (o1, Some col)" "resolve_column fns n2 = (o2, Some col)"
    using assms(1,2) by (cases "resolve_column fns n1"; cases "resolve_column fns n2") simp
  show ?thesis
    using assms(3,4) r
    by (simp add: tuple_result_of_try csv_column_to_mysql_tuple_try_def fieldnames_def Let_def
        split: sum.splits option.splits)
qed

lemma resolve_unique_match:
  assumes "c0 \<in> set fns" "c0 \<noteq> []"
    and "remove_spaces (py_lower c0) = remove_spaces (py_lower name)"
    and "\<forall>col\<in>set fns. remove_spaces (py_lower col) = remove_spaces (py_lower name) \<longrightarrow> col = c0"
  shows "snd (resolve_column fns name) = Some c0"
proof (cases "List.find (\<lambda>col. py_lower col = py_lower name) fns")
  case None
  obtain c where c: "List.find (\<lambda>col. remove_spaces (py_lower col) = remove_spaces (py_lower name)) fns = Some c"
    using assms(1,3) by (cases "List.find (\<lambda>col. remove_spaces (py_lower col) = remove_spaces (py_lower name)) fns")
      (auto simp: find_None_iff)
  then have "c = c0" using assms(4) by (auto dest!: find_sat)
  then show ?thesis using None c by (simp add: resolve_column_def)
next
  case (Some c)
  then have "py_lower c = py_lower name \<and> c \<in> set fns" by (auto dest!: find_sat)
  then have "c = c0" using assms(4) by auto
  then show ?thesis using Some assms(2) by (simp add: resolve_column_def)
qed

text \<open>
  Claim C4, as amended. Column resolution in \<open>csv_column_to_mysql_tuple\<close> ignores
  case and spaces and proceeds in two passes: the first field name equal to the column
  name up to case, then, only if that finds nothing, the first field name equal to it up
  to case once the spaces are removed. So for a CSV whose header contains
  \<open>Product Code\<close> and no other field name equal to it up to case and spaces, every
  column name equal to it up to case and spaces (such as \<open>productcode\<close>) resolves to
  \<open>Product Code\<close> and returns what extracting \<open>PRODUCT CODE\<close> returns. An
  underscore is not a space.
\<close>

theorem resolution_ignores_case_and_spaces:
  "(\<forall>fns name c. List.find (\<lambda>col. py_lower col = py_lower name) fns = Some c \<and> c \<noteq> [] \<longrightarrow>
       resolve_column fns name = ([], Some c)) \<and>
   (\<forall>fns name c. \<not> py_truthy (List.find (\<lambda>col. py_lower col = py_lower name) fns) \<and>
       List.find (\<lambda>col. remove_spaces (py_lower col) = remove_spaces (py_lower name)) fns = Some c \<longrightarrow>
       snd (resolve_column fns name) = Some c) \<and>
   (\<forall>w csv_file fns rest fault name add_quotes.
       reads w csv_file = Inr (fns # rest, fault) \<and> ''Product Code'' \<in> set fns \<and>
       (\<forall>col\<in>set fns. remove_spaces (py_lower col) = ''productcode'' \<longrightarrow> col = ''Product Code'') \<and>
       remove_spaces (py_lower name) = ''productcode'' \<longrightarrow>
       snd (resolve_column fns name) = Some ''Product Code'' \<and>
       snd (csv_column_to_mysql_tuple w csv_file name add_quotes) =
       snd (csv_column_to_mysql_tuple w csv_file ''PRODUCT CODE'' add_quotes))"
proof (intro conjI allI impI)
  fix fns name c
  assume "List.find (\<lambda>col. py_lower col = py_lower name) fns = Some c \<and> c \<noteq> []"
  then show "resolve_column fns name = ([], Some c)"
    by (simp add: resolve_column_def)
next
  fix fns name c
  assume "\<not> py_truthy (List.find (\<lambda>col. py_lower col = py_lower name) fns) \<and>
       List.find (\<lambda>col. remove_spaces (py_lower col) = remove_spaces (py_lower name)) fns = Some c"
  then show "snd (resolve_column fns name) = Some c"
    by (simp add: resolve_column_def)
next
  fix w :: "(csv_source, 'c) world" and csv_file fns rest fault name add_quotes
  assume a: "reads w csv_file = Inr (fns # rest, fault) \<and> ''Product Code'' \<in> set fns \<and>
       (\<forall>col\<in>set fns. remove_spaces (py_lower col) = ''productcode'' \<longrightarrow> col = ''Product Code'') \<and>
       remove_spaces (py_lower name) = ''productcode''"
  have pc: "remove_spaces (py_lower ''Product Code'') = ''productcode''"
    by (simp add: remove_spaces_def py_lower_def lower_char_def is_upper_def)
  have up: "remove_spaces (py_lower ''PRODUCT CODE'') = ''productcode''"
    by (simp add: remove_spaces_def py_lower_def lower_char_def is_upper_def)
  have r1: "snd (resolve_column fns name) = Some ''Product Code''"
    using a pc by (intro resolve_unique_match) auto
  have r2: "snd (resolve_column fns ''PRODUCT CODE'') = Some ''Product Code''"
    using a pc up by (intro resolve_unique_match) auto
  show "snd (resolve_column fns name) = Some ''Product Code''" by (rule r1)
  show "snd (csv_column_to_mysql_tuple w csv_file name add_quotes) =
        snd (csv_column_to_mysql_tuple w csv_file ''PRODUCT CODE'' add_quotes)"
    using r1 r2 a by (intro tuple_result_by_resolved_column [where col = "''Product Code''"]) auto
qed

text \<open>
  The claim as the specification states it fails: with the header \<open>Product Code\<close>,
  extracting \<open>product_code\<close> finds no column and returns nothing, while extracting
  \<open>PRODUCT CODE\<close> returns the tuple.
\<close>

theorem underscore_is_not_a_space:
  "snd (csv_column_to_mysql_tuple
          (single_file_world ''products.csv'' ([[''Product Code''], [''ABC123'']], None)
           :: (csv_source, string) world)
          ''products.csv'' ''product_code'' True) = Inr None \<and>
   snd (csv_column_to_mysql_tuple
          (single_file_world ''products.csv'' ([[''Product Code''], [''ABC123'']], None)
           :: (csv_source, string) world)
          ''products.csv'' ''PRODUCT CODE'' True) = Inr (Some (''('' @ SQ @ ''ABC123'' @ SQ @ '')''))"
  by (simp add: csv_column_to_mysql_tuple_def csv_column_to_mysql_tuple_try_def fieldnames_def
      single_file_world_def resolve_column_def py_lower_def lower_char_def is_upper_def
      remove_spaces_def dict_rows_def dict_row_def py_strip_def py_isspace_def format_values_def)

theorem resolution_ignores_case_and_spaces_witness:
  "snd (csv_column_to_mysql_tuple
          (single_file_world ''products.csv''
             ([[''Qty'', ''Product Code''], [''2'', ''ABC123'']], None)
           :: (csv_source, string) world)
          ''products.csv'' ''productcode'' True) =
   snd (csv_column_to_mysql_tuple
          (single_file_world ''products.csv''
             ([[''Qty'', ''Product Code''], [''2'', ''ABC123'']], None)
           :: (csv_source, string) world)
          ''products.csv'' ''PRODUCT CODE'' True) \<and>
   snd (resolve_column [''Qty'', ''Product Code''] ''productcode'') = Some ''Product Code''"
proof -
  let ?fns = "[''Qty'', ''Product Code'']"
  let ?w = "single_file_world ''products.csv'' ([?fns, [''2'', ''ABC123'']], None)
              :: (csv_source, string) world"
  have "reads ?w ''products.csv'' = Inr (?fns # [[''2'', ''ABC123'']], None) \<and>
        ''Product Code'' \<in> set ?fns \<and>
        (\<forall>col\<in>set ?fns. remove_spaces (py_lower col) = ''productcode'' \<longrightarrow> col = ''Product Code'') \<and>
        remove_spaces (py_lower ''productcode'') = ''productcode''"
    by (simp add: single_file_world_def remove_spaces_def py_lower_def lower_char_def is_upper_def)
  from resolution_ignores_case_and_spaces [THEN conjunct2, THEN conjunct2, rule_format, OF this, of True]
  show ?thesis
    by simp
qed

section \<open>Splitting a tuple string\<close>

lemma split_token:
  "\<not> has_comma_space t \<Longrightarrow>
   split_comma_space cur (t @ '', '' @ r) = (cur @ t) # split_comma_space [] r"
proof (induction t arbitrary: cur)
  case Nil
  then show ?case by simp
next
  case (Cons c t)
  show ?case
  proof (cases t)
    case Nil
    then show ?thesis using Cons.IH [of "cur @ [c]"] by simp
  next
    case (Cons d t')
    then show ?thesis using Cons.prems Cons.IH [of "cur @ [c]"] by simp
  qed
qed

lemma split_last: "\<not> has_comma_space t \<Longrightarrow> split_comma_space cur t = [cur @ t]"
proof (induction t arbitrary: cur)
  case Nil
  then show ?case by simp
next
  case (Cons c t)
  show ?case
  proof (cases t)
    case Nil
    then show ?thesis by simp
  next
    case (Cons d t')
    then show ?thesis using Cons.prems Cons.IH [of "cur @ [c]"] by simp
  qed
qed

lemma split_join:
  "ts \<noteq> [] \<Longrightarrow> \<forall>t\<in>set ts. \<not> has_comma_space t \<Longrightarrow>
   split_comma_space [] (py_join '', '' ts) = ts"
proof (induction ts)
  case Nil
  then show ?case by simp
next
  case (Cons x ts)
  show ?case
  proof (cases ts)
    case Nil
    then show ?thesis using Cons.prems by (simp add: split_last)
  next
    case (Cons y ys)
    then show ?thesis
      using Cons.prems Cons.IH split_token [of x "[]" "py_join '', '' (y # ys)"] by simp
  qed
qed

lemma has_comma_space_append_quote: "has_comma_space (v @ SQ) = has_comma_space v"
proof (induction v rule: has_comma_space.induct)
  case (1 c d s)
  then show ?case by simp
qed simp_all

lemma has_comma_space_quoted: "has_comma_space (SQ @ v @ SQ) = has_comma_space v"
  using has_comma_space_append_quote [of v] by (cases "v @ SQ") auto

lemma reconstruct_parens: "reconstruct (''('' @ s @ '')'') = split_comma_space [] s"
  by (simp add: reconstruct_def butlast_append)

lemma tuple_result_table:
  assumes "reads w csv_file = Inr (fns # rest, None)"
    and "snd (resolve_column fns column_name) = Some col" and "col \<noteq> []"
    and "distinct fns"
    and "\<forall>row\<in>set rest. row = [] \<or> index_of col fns < length row"
    and "snd (csv_column_to_mysql_tuple w csv_file column_name add_quotes) = Inr (Some s)"
  shows "column_values col fns rest \<noteq> [] \<and>
         s = format_values add_quotes (column_values col fns rest)"
proof -
  have ex: "extract_values col (dict_rows (fns # rest)) [] = Inr (column_values col fns rest)"
    using assms(4) resolve_column_in_set [OF assms(2)] assms(5) by (rule extract_values_file)
  obtain out where res: "resolve_column fns column_name = (out, Some col)"
    using assms(2) by (cases "resolve_column fns column_name") simp
  show ?thesis
    using assms(1,3,6) ex res
    by (simp add: tuple_result_of_try csv_column_to_mysql_tuple_try_def fieldnames_def Let_def
        split: if_splits)
qed

text \<open>
  Claim C5, as amended. For a CSV input with a header and rows, when
  \<open>csv_column_to_mysql_tuple\<close> succeeds on an existing column and no trimmed value
  of that column contains \<open>", "\<close>, the returned string, after taking off the outer
  parentheses and splitting at \<open>", "\<close>, gives exactly the trimmed non-empty values
  of the column in row order as they were formatted: each in single quotes when
  \<open>add_quotes\<close> is true, bare otherwise. The file is a table as in claim C1.
\<close>

theorem split_gives_back_formatted_values:
  assumes "reads w csv_file = Inr (fns # rest, None)"
    and "snd (resolve_column fns column_name) = Some col" and "col \<noteq> []"
    and "distinct fns"
    and "\<forall>row\<in>set rest. row = [] \<or> index_of col fns < length row"
    and "\<forall>v\<in>set (column_values col fns rest). \<not> has_comma_space v"
    and "snd (csv_column_to_mysql_tuple w csv_file column_name add_quotes) = Inr (Some s)"
  shows "reconstruct s =
         map (\<lambda>v. if add_quotes then SQ @ v @ SQ else v) (column_values col fns rest)"
proof -
  let ?vs = "column_values col fns rest"
  have s: "?vs \<noteq> [] \<and> s = format_values add_quotes ?vs"
    using assms(1,2,3,4,5,7) by (rule tuple_result_table)
  show ?thesis
  proof (cases add_quotes)
    case True
    have "\<forall>t\<in>set (map (\<lambda>v. SQ @ v @ SQ) ?vs). \<not> has_comma_space t"
      using assms(6) has_comma_space_quoted by auto
    then have "split_comma_space [] (py_join '', '' (map (\<lambda>v. SQ @ v @ SQ) ?vs)) =
               map (\<lambda>v. SQ @ v @ SQ) ?vs"
      using s by (intro split_join) simp_all
    then show ?thesis
      using s True reconstruct_parens [of "py_join '', '' (map (\<lambda>v. SQ @ v @ SQ) ?vs)"]
      by (simp add: format_values_def)
  next
    case False
    have "split_comma_space [] (py_join '', '' ?vs) = ?vs"
      using s assms(6) by (intro split_join) simp_all
    then show ?thesis
      using s False reconstruct_parens [of "py_join '', '' ?vs"]
      by (simp add: format_values_def)
  qed
qed

text \<open>
  The claim as the specification states it fails twice. A value that contains
  \<open>", "\<close> is split in two; and with \<open>add_quotes\<close> the pieces carry the quotes
  that the values do not have.
\<close>

theorem split_does_not_give_back_values:
  "snd (csv_column_to_mysql_tuple
          (single_file_world ''cities.csv'' ([[''city''], [''Paris, France'']], None)
           :: (csv_source, string) world)
          ''cities.csv'' ''city'' False) = Inr (Some ''(Paris, France)'') \<and>
   column_values ''city'' [''city''] [[''Paris, France'']] = [''Paris, France''] \<and>
   reconstruct ''(Paris, France)'' = [''Paris'', ''France''] \<and>
   snd (csv_column_to_mysql_tuple
          (single_file_world ''cities.csv'' ([[''city''], [''Rome'']], None)
           :: (csv_source, string) world)
          ''cities.csv'' ''city'' True) = Inr (Some (''('' @ SQ @ ''Rome'' @ SQ @ '')'')) \<and>
   column_values ''city'' [''city''] [[''Rome'']] = [''Rome''] \<and>
   reconstruct (''('' @ SQ @ ''Rome'' @ SQ @ '')'') = [SQ @ ''Rome'' @ SQ]"
  by (simp add: csv_column_to_mysql_tuple_def csv_column_to_mysql_tuple_try_def fieldnames_def
      single_file_world_def resolve_column_def py_lower_def lower_char_def is_upper_def
      remove_spaces_def dict_rows_def dict_row_def py_strip_def py_isspace_def format_values_def
      column_values_def index_of_def reconstruct_def)

theorem split_gives_back_formatted_values_witness:
  "reconstruct (''('' @ SQ @ ''ABC123'' @ SQ @ '', '' @ SQ @ ''DEF,456'' @ SQ @ '')'') =
   [SQ @ ''ABC123'' @ SQ, SQ @ ''DEF,456'' @ SQ] \<and>
   snd (csv_column_to_mysql_tuple
          (single_file_world ''test.csv''
             ([[''Qty'', ''Code''], [''1'', ''ABC123''], [], [''2'', ''  ''], [''3'', '' DEF,456'']],
              None)
           :: (csv_source, string) world)
          ''test.csv'' ''code'' True) =
   Inr (Some (''('' @ SQ @ ''ABC123'' @ SQ @ '', '' @ SQ @ ''DEF,456'' @ SQ @ '')''))"
proof -
  let ?fns = "[''Qty'', ''Code'']"
  let ?rest = "[[''1'', ''ABC123''], [], [''2'', ''  ''], [''3'', '' DEF,456'']]"
  let ?w = "single_file_world ''test.csv'' (?fns # ?rest, None) :: (csv_source, string) world"
  let ?s = "''('' @ SQ @ ''ABC123'' @ SQ @ '', '' @ SQ @ ''DEF,456'' @ SQ @ '')''"
  have vals: "column_values ''Code'' ?fns ?rest = [''ABC123'', ''DEF,456'']"
    by (simp add: column_values_def index_of_def py_strip_def py_isspace_def)
  have res: "snd (csv_column_to_mysql_tuple ?w ''test.csv'' ''code'' True) = Inr (Some ?s)"
    by (simp add: csv_column_to_mysql_tuple_def csv_column_to_mysql_tuple_try_def fieldnames_def
      single_file_world_def resolve_column_def py_lower_def lower_char_def is_upper_def
      dict_rows_def dict_row_def py_strip_def py_isspace_def format_values_def)
  have "reconstruct ?s =
        map (\<lambda>v. if True then SQ @ v @ SQ else v) (column_values ''Code'' ?fns ?rest)"
  proof (rule split_gives_back_formatted_values [where w = ?w and csv_file = "''test.csv''"
        and column_name = "''code''"])
    show "reads ?w ''test.csv'' = Inr (?fns # ?rest, None)"
      by (simp add: single_file_world_def)
    show "snd (resolve_column ?fns ''code'') = Some ''Code''"
      by (simp add: resolve_column_def py_lower_def lower_char_def is_upper_def)
    show "''Code'' \<noteq> []" by simp
    show "distinct ?fns" by simp
    show "\<forall>row\<in>set ?rest. row = [] \<or> index_of ''Code'' ?fns < length row"
      by (simp add: index_of_def)
    show "\<forall>v\<in>set (column_values ''Code'' ?fns ?rest). \<not> has_comma_space v"
      by (simp add: vals)
    show "snd (csv_column_to_mysql_tuple ?w ''test.csv'' ''code'' True) = Inr (Some ?s)"
      by (rule res)
  qed
  then show ?thesis
    using res by (simp add: vals)
qed

section \<open>Error handling of the extractor and the generator\<close>

lemma script_result_of_try:
  "snd (csv_to_mysql_update_script w csv_file table_name) =
   (case snd (csv_to_mysql_update_script_try w csv_file table_name) of
      Inl e \<Rightarrow> Inr None
    | Inr result \<Rightarrow> Inr result)"
  by (simp add: csv_to_mysql_update_script_def split: prod.splits sum.splits py_exception.splits)

lemma tuple_never_raises:
  "\<exists>out r. csv_column_to_mysql_tuple w csv_file column_name add_quotes = (out, Inr r)"
  by (simp add: csv_column_to_mysql_tuple_def split: prod.splits sum.splits py_exception.splits)

lemma script_never_raises:
  "\<exists>out r. csv_to_mysql_update_script w csv_file table_name = (out, Inr r)"
  by (simp add: csv_to_mysql_update_script_def split: prod.splits sum.splits py_exception.splits)

lemma tuple_missing_file:
  "reads w csv_file = Inl (FileNotFoundError m) \<Longrightarrow>
   csv_column_to_mysql_tuple w csv_file column_name add_quotes =
     ([''Error: File '' @ SQ @ csv_file @ SQ @ '' not found.''], Inr None)"
  by (simp add: csv_column_to_mysql_tuple_def csv_column_to_mysql_tuple_try_def)

lemma script_missing_file:
  "reads w csv_file = Inl (FileNotFoundError m) \<Longrightarrow>
   csv_to_mysql_update_script w csv_file table_name =
     ([''Error: File '' @ SQ @ csv_file @ SQ @ '' not found.''], Inr None)"
  by (simp add: csv_to_mysql_update_script_def csv_to_mysql_update_script_try_def)

lemma tuple_open_fails:
  "reads w csv_file = Inl e \<Longrightarrow>
   snd (csv_column_to_mysql_tuple w csv_file column_name add_quotes) = Inr None"
  by (simp add: tuple_result_of_try csv_column_to_mysql_tuple_try_def)

lemma script_open_fails:
  "reads w csv_file = Inl e \<Longrightarrow>
   snd (csv_to_mysql_update_script w csv_file table_name) = Inr None"
  by (simp add: script_result_of_try csv_to_mysql_update_script_try_def)

lemma tuple_read_fault:
  "reads w csv_file = Inr (rs, Some e) \<Longrightarrow>
   snd (csv_column_to_mysql_tuple w csv_file column_name add_quotes) = Inr None"
  by (simp add: tuple_result_of_try csv_column_to_mysql_tuple_try_def fieldnames_def Let_def
      split: list.splits sum.splits option.splits prod.splits)

lemma script_read_fault:
  "reads w csv_file = Inr (rs, Some e) \<Longrightarrow>
   snd (csv_to_mysql_update_script w csv_file table_name) = Inr None"
  by (simp add: script_result_of_try csv_to_mysql_update_script_try_def fieldnames_def
      split: list.splits sum.splits option.splits)

lemma tuple_unresolved:
  "reads w csv_file = Inr (fns # rest, fault) \<Longrightarrow>
   \<not> py_truthy (snd (resolve_column fns column_name)) \<Longrightarrow>
   snd (csv_column_to_mysql_tuple w csv_file column_name add_quotes) = Inr None \<and>
   last (fst (csv_column_to_mysql_tuple w csv_file column_name add_quotes)) =
     ''Error: Could not find column matching '' @ SQ @ column_name @ SQ"
  by (cases "resolve_column fns column_name")
    (auto simp: csv_column_to_mysql_tuple_def csv_column_to_mysql_tuple_try_def fieldnames_def
      Let_def split: option.splits)

lemma tuple_no_values:
  "reads w csv_file = Inr (fns # rest, None) \<Longrightarrow>
   snd (resolve_column fns column_name) = Some col \<Longrightarrow> col \<noteq> [] \<Longrightarrow>
   extract_values col (dict_rows (fns # rest)) [] = Inr [] \<Longrightarrow>
   snd (csv_column_to_mysql_tuple w csv_file column_name add_quotes) = Inr None \<and>
   last (fst (csv_column_to_mysql_tuple w csv_file column_name add_quotes)) =
     ''Warning: No values found for column '' @ SQ @ col @ SQ"
  by (cases "resolve_column fns column_name")
    (auto simp: csv_column_to_mysql_tuple_def csv_column_to_mysql_tuple_try_def fieldnames_def
      Let_def split: option.splits)

lemma tuple_try_absent_reported:
  "csv_column_to_mysql_tuple_try w csv_file column_name add_quotes = (out, Inr None) \<Longrightarrow>
   out \<noteq> [] \<and> (prefix ''Error: '' (last out) \<or> prefix ''Warning: '' (last out))"
  by (cases "resolve_column (hd (fst (projr (reads w csv_file)))) column_name")
    (auto simp: csv_column_to_mysql_tuple_try_def fieldnames_def Let_def
      split: sum.splits option.splits list.splits if_splits)

lemma tuple_absent_reported:
  assumes "snd (csv_column_to_mysql_tuple w csv_file column_name add_quotes) = Inr None"
  shows "fst (csv_column_to_mysql_tuple w csv_file column_name add_quotes) \<noteq> [] \<and>
         (prefix ''Error: '' (last (fst (csv_column_to_mysql_tuple w csv_file column_name add_quotes))) \<or>
          prefix ''Warning: '' (last (fst (csv_column_to_mysql_tuple w csv_file column_name add_quotes))))"
proof (cases "csv_column_to_mysql_tuple_try w csv_file column_name add_quotes")
  case (Pair out res)
  show ?thesis
  proof (cases res)
    case (Inl e)
    then show ?thesis using Pair
      by (cases e) (simp_all add: csv_column_to_mysql_tuple_def)
  next
    case (Inr r)
    then have "r = None" using assms Pair by (simp add: csv_column_to_mysql_tuple_def)
    then show ?thesis
      using Pair Inr tuple_try_absent_reported [of w csv_file column_name add_quotes out]
      by (simp add: csv_column_to_mysql_tuple_def)
  qed
qed

lemma script_try_never_absent:
  "csv_to_mysql_update_script_try w csv_file table_name \<noteq> (out, Inr None)"
  by (simp add: csv_to_mysql_update_script_try_def split: sum.splits option.splits)

lemma script_absent_reported:
  assumes "snd (csv_to_mysql_update_script w csv_file table_name) = Inr None"
  shows "fst (csv_to_mysql_update_script w csv_file table_name) \<noteq> [] \<and>
         prefix ''Error: '' (last (fst (csv_to_mysql_update_script w csv_file table_name)))"
proof (cases "csv_to_mysql_update_script_try w csv_file table_name")
  case (Pair out res)
  show ?thesis
  proof (cases res)
    case (Inl e)
    then show ?thesis using Pair
      by (cases e) (simp_all add: csv_to_mysql_update_script_def)
  next
    case (Inr r)
    then have "r = None" using assms Pair by (simp add: csv_to_mysql_update_script_def)
    then show ?thesis
      using Pair Inr script_try_never_absent [of w csv_file table_name out] by simp
  qed
qed

lemma main_unreadable_input:
  assumes "reads w (argv ! 1) = Inl e"
  shows "snd (main argv w) = w"
proof (cases "length argv < 3")
  case True
  then show ?thesis by (simp add: main_def)
next
  case False
  show ?thesis
  proof (cases "parse_args (drop 2 argv)")
    case (Inl e')
    then show ?thesis using False by (simp add: main_def)
  next
    case (Inr p)
    obtain add_quotes args column_name output_file
      where p: "p = (add_quotes, args, column_name, output_file)"
      by (cases p) auto
    obtain o1 where t: "csv_column_to_mysql_tuple w (argv ! 1) column_name add_quotes = (o1, Inr None)"
      using tuple_open_fails [OF assms, of column_name add_quotes]
      by (cases "csv_column_to_mysql_tuple w (argv ! 1) column_name add_quotes") simp
    obtain o2 where u: "csv_to_mysql_update_script w (argv ! 1) (hd args) = (o2, Inr None)"
      using script_open_fails [OF assms, of "hd args"]
      by (cases "csv_to_mysql_update_script w (argv ! 1) (hd args)") simp
    show ?thesis
      using False Inr p t u by (simp add: main_def Let_def)
  qed
qed

lemma deduplicate_unreadable_input:
  "reads w input_file = Inl e \<Longrightarrow>
   deduplicate_csv timestamp input_file output_dir w = (([], Inl e), w)"
  by (simp add: deduplicate_csv_def)

text \<open>
  Claim C6. \<open>csv_column_to_mysql_tuple\<close> and \<open>csv_to_mysql_update_script\<close> catch
  every error: for no file system and no arguments does either raise. A missing file
  gives the line that names it and an absent result; so does, with its own line, any
  other failure to open the file, a failure while reading it, a column name that does
  not resolve, and an empty list of values; and whenever the result is absent the last
  line printed is an error or a warning. When the input file cannot be opened, no tool
  writes anything: \<open>main\<close> leaves the file system as it was, and so does
  \<open>deduplicate_csv\<close>, which lets the exception pass.
\<close>

theorem errors_are_caught_and_reported:
  "(\<forall>(w :: (csv_source, 'c) world) csv_file column_name add_quotes.
      \<exists>out r. csv_column_to_mysql_tuple w csv_file column_name add_quotes = (out, Inr r)) \<and>
   (\<forall>(w :: (csv_source, 'c) world) csv_file table_name.
      \<exists>out r. csv_to_mysql_update_script w csv_file table_name = (out, Inr r)) \<and>
   (\<forall>(w :: (csv_source, 'c) world) csv_file m column_name add_quotes table_name.
      reads w csv_file = Inl (FileNotFoundError m) \<longrightarrow>
      csv_column_to_mysql_tuple w csv_file column_name add_quotes =
        ([''Error: File '' @ SQ @ csv_file @ SQ @ '' not found.''], Inr None) \<and>
      csv_to_mysql_update_script w csv_file table_name =
        ([''Error: File '' @ SQ @ csv_file @ SQ @ '' not found.''], Inr None)) \<and>
   (\<forall>(w :: (csv_source, 'c) world) csv_file e column_name add_quotes table_name.
      reads w csv_file = Inl e \<longrightarrow>
      snd (csv_column_to_mysql_tuple w csv_file column_name add_quotes) = Inr None \<and>
      snd (csv_to_mysql_update_script w csv_file table_name) = Inr None) \<and>
   (\<forall>(w :: (csv_source, 'c) world) csv_file rs e column_name add_quotes table_name.
      reads w csv_file = Inr (rs, Some e) \<longrightarrow>
      snd (csv_column_to_mysql_tuple w csv_file column_name add_quotes) = Inr None \<and>
      snd (csv_to_mysql_update_script w csv_file table_name) = Inr None) \<and>
   (\<forall>(w :: (csv_source, 'c) world) csv_file fns rest fault column_name add_quotes.
      reads w csv_file = Inr (fns # rest, fault) \<and>
      \<not> py_truthy (snd (resolve_column fns column_name)) \<longrightarrow>
      snd (csv_column_to_mysql_tuple w csv_file column_name add_quotes) = Inr None \<and>
      last (fst (csv_column_to_mysql_tuple w csv_file column_name add_quotes)) =
        ''Error: Could not find column matching '' @ SQ @ column_name @ SQ) \<and>
   (\<forall>(w :: (csv_source, 'c) world) csv_file fns rest column_name col add_quotes.
      reads w csv_file = Inr (fns # rest, None) \<and>
      snd (resolve_column fns column_name) = Some col \<and> col \<noteq> [] \<and>
      extract_values col (dict_rows (fns # rest)) [] = Inr [] \<longrightarrow>
      snd (csv_column_to_mysql_tuple w csv_file column_name add_quotes) = Inr None \<and>
      last (fst (csv_column_to_mysql_tuple w csv_file column_name add_quotes)) =
        ''Warning: No values found for column '' @ SQ @ col @ SQ) \<and>
   (\<forall>(w :: (csv_source, 'c) world) csv_file column_name add_quotes.
      snd (csv_column_to_mysql_tuple w csv_file column_name add_quotes) = Inr None \<longrightarrow>
      fst (csv_column_to_mysql_tuple w csv_file column_name add_quotes) \<noteq> [] \<and>
      (prefix ''Error: ''
         (last (fst (csv_column_to_mysql_tuple w csv_file column_name add_quotes))) \<or>
       prefix ''Warning: ''
         (last (fst (csv_column_to_mysql_tuple w csv_file column_name add_quotes))))) \<and>
   (\<forall>(w :: (csv_source, 'c) world) csv_file table_name.
      snd (csv_to_mysql_update_script w csv_file table_name) = Inr None \<longrightarrow>
      fst (csv_to_mysql_update_script w csv_file table_name) \<noteq> [] \<and>
      prefix ''Error: '' (last (fst (csv_to_mysql_update_script w csv_file table_name)))) \<and>
   (\<forall>w argv e. reads w (argv ! 1) = Inl e \<longrightarrow> snd (main argv w) = w) \<and>
   (\<forall>(w :: ('v dataframe, 'v dataframe) world) input_file e timestamp output_dir.
      reads w input_file = Inl e \<longrightarrow>
      deduplicate_csv timestamp input_file output_dir w = (([], Inl e), w))"
proof (intro conjI)
  show "\<forall>(w :: (csv_source, 'c) world) csv_file column_name add_quotes.
      \<exists>out r. csv_column_to_mysql_tuple w csv_file column_name add_quotes = (out, Inr r)"
    by (simp add: tuple_never_raises)
  show "\<forall>(w :: (csv_source, 'c) world) csv_file table_name.
      \<exists>out r. csv_to_mysql_update_script w csv_file table_name = (out, Inr r)"
    by (simp add: script_never_raises)
qed (auto simp: tuple_missing_file script_missing_file tuple_open_fails script_open_fails
      tuple_read_fault script_read_fault main_unreadable_input deduplicate_unreadable_input
    dest: tuple_unresolved tuple_no_values tuple_absent_reported script_absent_reported)

theorem errors_are_caught_and_reported_witness:
  "csv_column_to_mysql_tuple
     (single_file_world ''source.csv'' ([[''PRODUCT_CODE''], [''ABC123'']], None)
      :: (csv_source, string) world)
     ''nonexistent.csv'' ''PRODUCT_CODE'' True =
     ([''Error: File '' @ SQ @ ''nonexistent.csv'' @ SQ @ '' not found.''], Inr None) \<and>
   csv_to_mysql_update_script
     (single_file_world ''source.csv'' ([[''PRODUCT_CODE''], [''ABC123'']], None)
      :: (csv_source, string) world)
     ''nonexistent.csv'' ''user'' =
     ([''Error: File '' @ SQ @ ''nonexistent.csv'' @ SQ @ '' not found.''], Inr None) \<and>
   snd (main [''csv_to_mysql.py'', ''nonexistent.csv'', ''PRODUCT_CODE'', ''output/codes.txt'']
          (single_file_world ''source.csv'' ([[''PRODUCT_CODE''], [''ABC123'']], None))) =
     single_file_world ''source.csv'' ([[''PRODUCT_CODE''], [''ABC123'']], None)"
proof -
  let ?w = "single_file_world ''source.csv'' ([[''PRODUCT_CODE''], [''ABC123'']], None)
              :: (csv_source, string) world"
  let ?argv = "[''csv_to_mysql.py'', ''nonexistent.csv'', ''PRODUCT_CODE'', ''output/codes.txt'']"
  let ?m = "''[Errno 2] No such file or directory: '' @ py_repr ''nonexistent.csv''"
  have r: "reads ?w ''nonexistent.csv'' = Inl (FileNotFoundError ?m)"
    by (simp add: single_file_world_def)
  have r': "reads ?w (?argv ! 1) = Inl (FileNotFoundError ?m)"
    by (simp add: single_file_world_def)
  note all = errors_are_caught_and_reported [where ?'c = string]
  have a: "csv_column_to_mysql_tuple ?w ''nonexistent.csv'' ''PRODUCT_CODE'' True =
             ([''Error: File '' @ SQ @ ''nonexistent.csv'' @ SQ @ '' not found.''], Inr None) \<and>
           csv_to_mysql_update_script ?w ''nonexistent.csv'' ''user'' =
             ([''Error: File '' @ SQ @ ''nonexistent.csv'' @ SQ @ '' not found.''], Inr None)"
    using all [THEN conjunct2, THEN conjunct2, THEN conjunct1, rule_format, OF r] by simp
  have b: "snd (main ?argv ?w) = ?w"
    using all r' by blast
  show ?thesis
    using a b by simp
qed

section \<open>Writing the result\<close>

lemmas fs_eval = makedirs_split_def os_path_dirname_def os_path_basename_def mkdir_exist_ok_def
  os_mkdir_def resolve_def components_def is_absolute_def node_is_dir_def trailing_slash_def
  path_isdir_def path_exists_def Let_def

lemma walk_same_dirs:
  "dirs w' = dirs w \<Longrightarrow> cwd w' = cwd w \<Longrightarrow> walk w' cur cs = walk w cur cs"
  by (induction w cur cs rule: walk.induct) (auto simp: node_is_dir_def)

lemma resolve_same_dirs:
  "dirs w' = dirs w \<Longrightarrow> cwd w' = cwd w \<Longrightarrow> resolve w p = Inr n \<Longrightarrow> resolve w' p = Inr n"
  using walk_same_dirs [of w' w]
  by (auto simp: resolve_def split: if_splits sum.splits)

text \<open>After a write that succeeds, the file at that path holds the content, whatever it
  held before, and no directory has changed.\<close>

lemma write_file_result:
  assumes "write_file p c w1 = Inr w2"
  shows "file_at w2 p = Some c" and "dirs w2 = dirs w1"
proof -
  obtain n where r: "resolve w1 p = Inr n"
    using assms by (cases "resolve w1 p") (simp_all add: write_file_def)
  have nd: "\<not> node_is_dir w1 n" and wd: "\<not> trailing_slash p"
    using assms r by (auto simp: write_file_def split: if_splits)
  have w2: "w2 = w1\<lparr>contents := (contents w1)(n \<mapsto> c)\<rparr>"
    using assms r nd wd by (simp add: write_file_def split: option.splits)
  show d: "dirs w2 = dirs w1" by (simp add: w2)
  have c: "cwd w2 = cwd w1" by (simp add: w2)
  have "resolve w2 p = Inr n"
    using d c r by (rule resolve_same_dirs)
  then show "file_at w2 p = Some c"
    using nd wd by (simp add: file_at_def w2 node_is_dir_def)
qed

text \<open>Making directories touches no regular file and removes no directory.\<close>

lemma os_mkdir_keeps:
  "contents (snd (os_mkdir name w)) = contents w \<and> dirs w \<subseteq> dirs (snd (os_mkdir name w))"
  by (auto simp: os_mkdir_def split: sum.splits option.splits)

lemma mkdir_exist_ok_keeps:
  "contents (snd (mkdir_exist_ok name w)) = contents w \<and>
   dirs w \<subseteq> dirs (snd (mkdir_exist_ok name w))"
proof -
  have "snd (mkdir_exist_ok name w) = snd (os_mkdir name w)"
    by (simp add: mkdir_exist_ok_def split: prod.splits sum.splits)
  then show ?thesis
    using os_mkdir_keeps [of name w] by simp
qed

lemma os_makedirs_keeps:
  "contents (snd (os_makedirs name w)) = contents w \<and>
   dirs w \<subseteq> dirs (snd (os_makedirs name w))"
proof (induction name w rule: os_makedirs.induct)
  case (1 name w)
  let ?head = "fst (makedirs_split name)"
  show ?case
  proof (cases "?head \<noteq> [] \<and> snd (makedirs_split name) \<noteq> [] \<and> \<not> path_exists w ?head")
    case False
    then have "os_makedirs name w = mkdir_exist_ok name w"
      by (subst os_makedirs.simps) auto
    then show ?thesis
      using mkdir_exist_ok_keeps [of name w] by simp
  next
    case True
    then have ih: "contents (snd (os_makedirs ?head w)) = contents w \<and>
                   dirs w \<subseteq> dirs (snd (os_makedirs ?head w))"
      using 1 by simp
    obtain r w' where h: "os_makedirs ?head w = (r, w')"
      by (cases "os_makedirs ?head w") auto
    have "snd (os_makedirs name w) = w' \<or>
          snd (os_makedirs name w) = snd (mkdir_exist_ok name w')"
      using True h
      by (subst (1 2) os_makedirs.simps)
        (auto split: sum.splits py_exception.splits)
    then show ?thesis
      using ih h mkdir_exist_ok_keeps [of name w'] by auto
  qed
qed

text \<open>The empty name: \<open>mkdir\<close> fails on it, and so does \<open>os.makedirs\<close>.\<close>

lemma makedirs_empty:
  "os_makedirs [] w =
     (Inl (FileNotFoundError (''[Errno 2] No such file or directory: '' @ SQ @ SQ)), w)"
  by (simp add: os_makedirs.simps [of "[]"] makedirs_split_def os_path_dirname_def
      os_path_basename_def mkdir_exist_ok_def os_mkdir_def resolve_def path_isdir_def
      py_repr_def repr_char_def Let_def)

lemma dirname_without_slash: "CHR ''/'' \<notin> set p \<Longrightarrow> os_path_dirname p = []"
proof -
  assume "CHR ''/'' \<notin> set p"
  then have "dropWhile (\<lambda>c. c \<noteq> CHR ''/'') (rev p) = []"
    by auto
  then show ?thesis
    by (simp add: os_path_dirname_def)
qed

text \<open>\<open>save_to_file\<close> never raises, and it changes no file unless it reports success.\<close>

lemma save_to_file_never_raises: "snd (fst (save_to_file content output_file w)) = Inr ()"
  by (simp add: save_to_file_def split: prod.splits sum.splits)

lemma save_to_file_failure_keeps_files:
  "fst (fst (save_to_file content output_file w)) \<noteq> [''Result saved to: '' @ output_file] \<Longrightarrow>
   contents (snd (save_to_file content output_file w)) = contents w"
  using os_makedirs_keeps [of "os_path_dirname output_file" w]
  by (auto simp: save_to_file_def split: prod.splits sum.splits)

text \<open>With a directory part in the path the directory is made and the file written,
  over what it held.\<close>

lemma save_to_file_in_directory:
  "save_to_file ''(1, 2)'' ''output/result.sql''
     ((single_file_world ''source.csv'' ([], None) :: (csv_source, string) world)
        \<lparr>dirs := {[''home'', ''user'', ''output'']},
         contents := [[''home'', ''user'', ''output'', ''result.sql''] \<mapsto> ''old'']\<rparr>) =
   (([''Result saved to: output/result.sql''], Inr ()),
    (single_file_world ''source.csv'' ([], None))
       \<lparr>dirs := {[''home'', ''user'', ''output'']},
        contents := [[''home'', ''user'', ''output'', ''result.sql''] \<mapsto> ''(1, 2)'']\<rparr>) \<and>
   save_to_file ''(1, 2)'' ''output/sql/result.sql''
     (single_file_world ''source.csv'' ([], None) :: (csv_source, string) world) =
   (([''Result saved to: output/sql/result.sql''], Inr ()),
    (single_file_world ''source.csv'' ([], None))
       \<lparr>dirs := {[''home'', ''user'', ''output'', ''sql''], [''home'', ''user'', ''output'']},
        contents := [[''home'', ''user'', ''output'', ''sql'', ''result.sql''] \<mapsto> ''(1, 2)'']\<rparr>)"
  by (simp add: save_to_file_def os_makedirs.simps [of "''output/sql''"]
      os_makedirs.simps [of "''output''"] write_file_def fs_eval single_file_world_def)

text \<open>
  Claim C7. The code does not do what the claim says for every output path. For a path
  without a slash, such as \<open>output.txt\<close>, the directory part is the empty name, on
  which \<open>os.makedirs\<close> fails: \<open>save_to_file\<close> prints that error and returns, and the
  file system is as it was. No directory is made and the content is never written, in
  any file system and although nothing stands in the way of the write.
\<close>

theorem save_to_file_skips_bare_name:
  "CHR ''/'' \<notin> set output_file \<Longrightarrow>
   save_to_file content output_file w =
     (([''Error saving to file: [Errno 2] No such file or directory: '' @ SQ @ SQ], Inr ()), w)"
proof -
  assume "CHR ''/'' \<notin> set output_file"
  then have "os_path_dirname output_file = []"
    by (rule dirname_without_slash)
  then have "os_makedirs (os_path_dirname output_file) w =
             (Inl (FileNotFoundError (''[Errno 2] No such file or directory: '' @ SQ @ SQ)), w)"
    by (simp add: makedirs_empty)
  then show ?thesis
    by (simp add: save_to_file_def)
qed

theorem save_to_file_skips_bare_name_witness:
  "save_to_file ''(1, 2)'' ''output.txt''
     (single_file_world ''source.csv'' ([], None) :: (csv_source, string) world) =
   (([''Error saving to file: [Errno 2] No such file or directory: '' @ SQ @ SQ], Inr ()),
    single_file_world ''source.csv'' ([], None))"
  using save_to_file_skips_bare_name [of "''output.txt''" "''(1, 2)''"
      "single_file_world ''source.csv'' ([], None) :: (csv_source, string) world"]
  by simp

text \<open>The command line \<open>csv_to_mysql.py source.csv PRODUCT_CODE output.txt\<close> in a
  directory that holds \<open>source.csv\<close> and is free of faults: the tuple is printed, after
  the error, and \<open>output.txt\<close> does not exist afterwards.\<close>

theorem bare_output_name_is_not_written:
  "main [''csv_to_mysql.py'', ''source.csv'', ''PRODUCT_CODE'', ''output.txt'']
     (single_file_world ''source.csv'' ([[''PRODUCT_CODE''], [''ABC123'']], None)) =
   (([''Available columns: PRODUCT_CODE'',
      ''Error saving to file: [Errno 2] No such file or directory: '' @ SQ @ SQ,
      ''('' @ SQ @ ''ABC123'' @ SQ @ '')''], Inr ()),
    single_file_world ''source.csv'' ([[''PRODUCT_CODE''], [''ABC123'']], None)) \<and>
   file_at
     (snd (main [''csv_to_mysql.py'', ''source.csv'', ''PRODUCT_CODE'', ''output.txt'']
             (single_file_world ''source.csv'' ([[''PRODUCT_CODE''], [''ABC123'']], None))))
     ''output.txt'' = None"
proof -
  let ?w = "single_file_world ''source.csv'' ([[''PRODUCT_CODE''], [''ABC123'']], None)
              :: (csv_source, string) world"
  let ?argv = "[''csv_to_mysql.py'', ''source.csv'', ''PRODUCT_CODE'', ''output.txt'']"
  have t: "csv_column_to_mysql_tuple ?w ''source.csv'' ''PRODUCT_CODE'' True =
           ([''Available columns: PRODUCT_CODE''], Inr (Some (''('' @ SQ @ ''ABC123'' @ SQ @ '')'')))"
    by (simp add: csv_column_to_mysql_tuple_def csv_column_to_mysql_tuple_try_def
        single_file_world_def fieldnames_def resolve_column_def py_lower_def lower_char_def
        is_upper_def dict_rows_def dict_row_def format_values_def py_strip_def py_isspace_def
        Let_def)
  have p: "parse_args [''PRODUCT_CODE'', ''output.txt''] =
           Inr (True, [''PRODUCT_CODE'', ''output.txt''], ''PRODUCT_CODE'', Some ''output.txt'')"
    by (simp add: parse_args_def Let_def)
  have s: "save_to_file (''('' @ SQ @ ''ABC123'' @ SQ @ '')'') ''output.txt'' ?w =
           (([''Error saving to file: [Errno 2] No such file or directory: '' @ SQ @ SQ],
             Inr ()), ?w)"
    by (simp add: save_to_file_def dirname_without_slash makedirs_empty)
  have l: "py_lower ''PRODUCT_CODE'' \<noteq> ''update_script''"
    by (simp add: py_lower_def lower_char_def is_upper_def)
  have m: "main ?argv ?w =
           (([''Available columns: PRODUCT_CODE'',
              ''Error saving to file: [Errno 2] No such file or directory: '' @ SQ @ SQ,
              ''('' @ SQ @ ''ABC123'' @ SQ @ '')''], Inr ()), ?w)"
    using t p s l by (simp add: main_def Let_def)
  have "file_at ?w ''output.txt'' = None"
    by (simp add: file_at_def fs_eval single_file_world_def)
  then show ?thesis
    using m by simp
qed

section \<open>The row deduplicator\<close>

lemma set_keep_first: "set (keep_first seen xs) = set xs - set seen"
  by (induction xs arbitrary: seen) auto

lemma distinct_keep_first: "distinct (keep_first seen xs)"
  by (induction xs arbitrary: seen) (auto simp: set_keep_first)


lemma keep_first_of_distinct:
  "distinct xs \<Longrightarrow> set xs \<inter> set seen = {} \<Longrightarrow> keep_first seen xs = xs"
  by (induction xs arbitrary: seen) auto

lemma keep_first_idempotent: "keep_first [] (keep_first [] xs) = keep_first [] xs"
  by (simp add: keep_first_of_distinct distinct_keep_first)





lemma deduplicate_csv_returned:
  assumes "deduplicate_csv timestamp input_file output_dir w = ((out, Inr p), w2)"
  shows "\<exists>df. reads w input_file = Inr df \<and> file_at w2 p = Some (drop_duplicates df)"
proof (cases "reads w input_file")
  case (Inl e)
  then show ?thesis using assms by (simp add: deduplicate_csv_def)
next
  case (Inr df)
  obtain made w1 where m: "os_makedirs (resolved_output_dir input_file output_dir) w = (made, w1)"
    by (cases "os_makedirs (resolved_output_dir input_file output_dir) w") auto
  show ?thesis
  proof (cases made)
    case (Inl e)
    then show ?thesis using assms Inr m by (simp add: deduplicate_csv_def Let_def)
  next
    case u: (Inr u)
    show ?thesis
    proof (cases "write_file (output_path timestamp input_file output_dir) (drop_duplicates df) w1")
      case (Inl e)
      then show ?thesis using assms Inr m u by (simp add: deduplicate_csv_def Let_def)
    next
      case f: (Inr w2')
      have "p = output_path timestamp input_file output_dir" "w2 = w2'"
        using assms Inr m u f by (simp_all add: deduplicate_csv_def Let_def)
      then show ?thesis
        using Inr write_file_result(1) [OF f] by simp
    qed
  qed
qed


text \<open>
  Claim C9. Deduplication is idempotent: removing duplicates from a table that has
  none, and so from one that was already deduplicated, gives the same table, rows and
  order unchanged. For the tool: when a second run reads what a first run wrote, the
  file it writes holds the same table; only the paths, which carry the timestamps,
  differ.
\<close>

theorem deduplication_is_idempotent:
  "(\<forall>df :: 'v dataframe. drop_duplicates (drop_duplicates df) = drop_duplicates df) \<and>
   (\<forall>df :: 'v dataframe. distinct (data_rows df) \<longrightarrow> drop_duplicates df = df) \<and>
   (\<forall>t1 f1 d1 (w :: ('v dataframe, 'v dataframe) world) out1 p1 wa
      t2 f2 d2 (w' :: ('v dataframe, 'v dataframe) world) out2 p2 wb once.
      deduplicate_csv t1 f1 d1 w = ((out1, Inr p1), wa) \<and> file_at wa p1 = Some once \<and>
      reads w' f2 = Inr once \<and> deduplicate_csv t2 f2 d2 w' = ((out2, Inr p2), wb) \<longrightarrow>
      file_at wb p2 = Some once)"
proof (intro conjI allI impI)
  fix df :: "'v dataframe"
  show "drop_duplicates (drop_duplicates df) = drop_duplicates df"
    by (simp add: drop_duplicates_def keep_first_idempotent)
next
  fix df :: "'v dataframe"
  assume "distinct (data_rows df)"
  then show "drop_duplicates df = df"
    by (simp add: drop_duplicates_def keep_first_of_distinct)
next
  fix t1 f1 d1 and w :: "('v dataframe, 'v dataframe) world" and out1 p1 wa
    and t2 f2 d2 and w' :: "('v dataframe, 'v dataframe) world" and out2 p2 wb once
  assume a: "deduplicate_csv t1 f1 d1 w = ((out1, Inr p1), wa) \<and> file_at wa p1 = Some once \<and>
      reads w' f2 = Inr once \<and> deduplicate_csv t2 f2 d2 w' = ((out2, Inr p2), wb)"
  from a have r1: "deduplicate_csv t1 f1 d1 w = ((out1, Inr p1), wa)"
    and c1: "file_at wa p1 = Some once"
    and r2: "reads w' f2 = Inr once"
    and r3: "deduplicate_csv t2 f2 d2 w' = ((out2, Inr p2), wb)"
    by blast+
  obtain df where "file_at wa p1 = Some (drop_duplicates df)"
    using deduplicate_csv_returned [OF r1] by blast
  with c1 have once: "once = drop_duplicates df"
    by (metis option.inject)
  obtain df' where d: "reads w' f2 = Inr df'" "file_at wb p2 = Some (drop_duplicates df')"
    using deduplicate_csv_returned [OF r3] by blast
  from d(1) r2 have "df' = once"
    by (metis sum.inject(2))
  moreover have "drop_duplicates (drop_duplicates df) = drop_duplicates df"
    by (simp add: drop_duplicates_def keep_first_idempotent)
  ultimately show "file_at wb p2 = Some once"
    using d(2) once by metis
qed



theorem deduplication_is_idempotent_witness:
  "drop_duplicates \<lparr>columns = [''ID''], data_rows = [[''1''], [''2''], [''3'']]\<rparr> =
     \<lparr>columns = [''ID''], data_rows = [[''1''], [''2''], [''3'']]\<rparr> \<and>
   drop_duplicates
     (drop_duplicates \<lparr>columns = [''ID''], data_rows = [[''1''], [''2''], [''2''], [''3'']]\<rparr>) =
     \<lparr>columns = [''ID''], data_rows = [[''1''], [''2''], [''3'']]\<rparr>"
proof -
  let ?once = "\<lparr>columns = [''ID''], data_rows = [[''1''], [''2''], [''3'']]\<rparr>"
  let ?df = "\<lparr>columns = [''ID''], data_rows = [[''1''], [''2''], [''2''], [''3'']]\<rparr>"
  note idem = deduplication_is_idempotent [where ?'v = string]
  have "distinct (data_rows ?once)" by simp
  with idem have a: "drop_duplicates ?once = ?once" by blast
  have d: "drop_duplicates ?df = ?once"
    by (simp add: drop_duplicates_def)
  from idem have "drop_duplicates (drop_duplicates ?df) = drop_duplicates ?df" by blast
  then show ?thesis using a d by simp
qed

end
